theory Spec2Isabelle
  imports Main "HOL-Library.Word"
begin

unbundle bit_operations_syntax

section \<open>Common data: bytes, Python exceptions, text formatting\<close>

type_synonym byte = "8 word"
type_synonym bytes = "byte list"

text \<open>
  The exceptions that the modelled functions raise.  The source's messages are Chinese
  text; the string carried here is an English gloss of the message, with the interpolated
  values of the f-string kept.  \<open>InvalidTag\<close> and \<open>InvalidToken\<close> are the exceptions of the
  \<open>cryptography\<close> package, \<open>OtherError\<close> stands for any other exception of a library call.
\<close>

datatype error =
    ValueError string
  | RuntimeError string
  | InvalidTag
  | InvalidToken
  | OtherError string


definition digit_char :: "nat \<Rightarrow> char" where
  "digit_char d = ''0123456789'' ! d"

text \<open>\<open>str(n)\<close> of a non-negative Python integer, as the f-strings interpolate it.\<close>

function str_nat :: "nat \<Rightarrow> string" where
  "str_nat n = (if n < 10 then [digit_char n] else str_nat (n div 10) @ [digit_char (n mod 10)])"
  by pat_completeness auto
termination
  by (relation "measure id") auto

declare str_nat.simps [simp del]


section \<open>The cipher classes and their constructors\<close>

text \<open>
  An instance of one of the three concrete subclasses of \<open>CryptoBase\<close>, with the
  attributes its constructor stores (\<open>key_size\<close>, \<open>mode\<close>).
\<close>

datatype cipher =
    AESCipher nat string
  | RSACipher nat
  | ChaCha20Cipher

fun cipher_name :: "cipher \<Rightarrow> string" where
  "cipher_name (AESCipher key_size mode) = ''AES-'' @ str_nat key_size @ ''-'' @ mode"
| "cipher_name (RSACipher key_size) = ''RSA-'' @ str_nat key_size"
| "cipher_name ChaCha20Cipher = ''ChaCha20-Poly1305''"

text \<open>\<open>AESCipher.__init__\<close> (aes.py): the two parameter checks, in the source's order.\<close>

definition AESCipher_init :: "nat \<Rightarrow> string \<Rightarrow> error + cipher" where
  "AESCipher_init key_size mode =
     (if key_size \<notin> {128, 192, 256} then Inl (ValueError ''AES key size must be 128, 192 or 256 bits'')
      else if mode \<notin> {''CBC'', ''CFB'', ''OFB'', ''CTR''} then Inl (ValueError ''unsupported cipher mode'')
      else Inr (AESCipher key_size mode))"

text \<open>\<open>RSACipher.__init__\<close> (rsa.py).\<close>

definition RSACipher_init :: "nat \<Rightarrow> error + cipher" where
  "RSACipher_init key_size =
     (if key_size < 1024 then Inl (ValueError ''RSA key size must be at least 1024 bits'')
      else Inr (RSACipher key_size))"

definition ChaCha20Cipher_init :: "error + cipher" where
  "ChaCha20Cipher_init = Inr ChaCha20Cipher"

section \<open>The cipher registry (crypto\_factory.py)\<close>

text \<open>
  \<open>CryptoFactory.algorithms\<close> is a dict from names to zero-argument constructors; a Python
  dict keeps insertion order, so it is an association list with distinct keys.
\<close>

type_synonym factory = "(string \<times> (unit \<Rightarrow> error + cipher)) list"

fun register_algorithm :: "string \<Rightarrow> (unit \<Rightarrow> error + cipher) \<Rightarrow> factory \<Rightarrow> factory" where
  "register_algorithm name f [] = [(name, f)]"
| "register_algorithm name f ((k, g) # algs) =
     (if k = name then (k, f) # algs else (k, g) # register_algorithm name f algs)"

definition register_algorithms :: "factory \<Rightarrow> factory" where
  "register_algorithms algs =
     (register_algorithm ''ChaCha20-Poly1305'' (\<lambda>_. ChaCha20Cipher_init)
     (register_algorithm ''RSA-4096'' (\<lambda>_. RSACipher_init 4096)
     (register_algorithm ''RSA-2048'' (\<lambda>_. RSACipher_init 2048)
     (register_algorithm ''RSA-1024'' (\<lambda>_. RSACipher_init 1024)
     (register_algorithm ''AES-256-CTR'' (\<lambda>_. AESCipher_init 256 ''CTR'')
     (register_algorithm ''AES-192-CTR'' (\<lambda>_. AESCipher_init 192 ''CTR'')
     (register_algorithm ''AES-128-CTR'' (\<lambda>_. AESCipher_init 128 ''CTR'')
     (register_algorithm ''AES-256-CFB'' (\<lambda>_. AESCipher_init 256 ''CFB'')
     (register_algorithm ''AES-192-CFB'' (\<lambda>_. AESCipher_init 192 ''CFB'')
     (register_algorithm ''AES-128-CFB'' (\<lambda>_. AESCipher_init 128 ''CFB'')
     (register_algorithm ''AES-256-CBC'' (\<lambda>_. AESCipher_init 256 ''CBC'')
     (register_algorithm ''AES-192-CBC'' (\<lambda>_. AESCipher_init 192 ''CBC'')
     (register_algorithm ''AES-128-CBC'' (\<lambda>_. AESCipher_init 128 ''CBC'') algs)))))))))))))"

text \<open>\<open>CryptoFactory.__init__\<close> and the module-level instance \<open>crypto_factory\<close>.\<close>

definition crypto_factory :: factory where
  "crypto_factory = register_algorithms []"

definition create_algorithm :: "factory \<Rightarrow> string \<Rightarrow> error + cipher" where
  "create_algorithm algs name =
     (case map_of algs name of
        None \<Rightarrow> Inl (ValueError (''unsupported algorithm: '' @ name))
      | Some f \<Rightarrow> f ())"

definition get_all_algorithms :: "factory \<Rightarrow> string list" where
  "get_all_algorithms algs = map fst algs"

section \<open>The key store on disk (key\_manager.py): paths and deletion\<close>

text \<open>
  The file system, as far as the key manager and the file ciphers use it: a map from path
  strings to file contents.  Two paths name the same file when they are the same string.
\<close>

type_synonym filesystem = "string \<rightharpoonup> bytes"

text \<open>\<open>os.path.join\<close> of two components (POSIX): an absolute second component wins.\<close>

definition os_path_join :: "string \<Rightarrow> string \<Rightarrow> string" where
  "os_path_join a b =
     (if b \<noteq> [] \<and> hd b = CHR ''/'' then b
      else if a = [] \<or> last a = CHR ''/'' then a @ b
      else a @ ''/'' @ b)"

record KeyManager =
  storage_dir :: string

definition key_file_of :: "KeyManager \<Rightarrow> string \<Rightarrow> string" where
  "key_file_of km key_name = os_path_join (storage_dir km) (key_name @ ''.key'')"

text \<open>
  \<open>KeyManager.delete_key\<close>: returns the success flag and the file system afterwards.
  \<open>os.remove\<close> of an existing file is taken to succeed.
\<close>

definition delete_key :: "KeyManager \<Rightarrow> filesystem \<Rightarrow> string \<Rightarrow> bool \<times> filesystem" where
  "delete_key km fs key_name =
     (let key_file = key_file_of km key_name
      in if fs key_file = None then (False, fs)
         else (True, fs(key_file := None)))"

section \<open>Byte strings, chunked reads and PKCS7 padding\<close>

definition xor_bytes :: "bytes \<Rightarrow> bytes \<Rightarrow> bytes" where
  "xor_bytes a b = map2 (XOR) a b"

text \<open>
  The read loop of the file functions: \<open>read(chunk_size)\<close> until it returns the empty
  byte string.  \<open>read(0)\<close> returns the empty string at once, so a chunk size of 0 reads
  nothing.
\<close>

function chunks :: "nat \<Rightarrow> bytes \<Rightarrow> bytes list" where
  "chunks n data = (if n = 0 \<or> data = [] then [] else take n data # chunks n (drop n data))"
  by pat_completeness auto
termination
  by (relation "measure (\<lambda>(n, data). length data)") auto

declare chunks.simps [simp del]

text \<open>
  \<open>padding.PKCS7(128)\<close> of the \<open>cryptography\<close> package: the padder appends \<open>n\<close> bytes of
  value \<open>n\<close>, \<open>1 \<le> n \<le> 16\<close>; the unpadder raises \<open>ValueError\<close> unless the input is a
  positive number of whole blocks that ends in such a run.
\<close>

definition pkcs7_pad :: "bytes \<Rightarrow> bytes" where
  "pkcs7_pad data = (let n = 16 - length data mod 16 in data @ replicate n (of_nat n))"

definition pkcs7_unpad :: "bytes \<Rightarrow> error + bytes" where
  "pkcs7_unpad data =
     (if data = [] \<or> length data mod 16 \<noteq> 0 then Inl (ValueError ''Invalid padding bytes.'')
      else let n = unat (last data)
           in if n = 0 \<or> 16 < n \<or> drop (length data - n) data \<noteq> replicate n (last data)
              then Inl (ValueError ''Invalid padding bytes.'')
              else Inr (take (length data - n) data))"

section \<open>The AES modes of operation of the cryptography package\<close>

text \<open>
  The AES block permutation is a primitive of the \<open>cryptography\<close> package, not code of this
  repository: it is a parameter, a pair of functions from a key and a 16-byte block to a
  16-byte block.  The modes of operation that the package builds on it are written out.
\<close>

record block_prim =
  blk_enc :: "bytes \<Rightarrow> bytes \<Rightarrow> bytes"
  blk_dec :: "bytes \<Rightarrow> bytes \<Rightarrow> bytes"

definition block_prim_ok :: "block_prim \<Rightarrow> bool" where
  "block_prim_ok A =
     (\<forall>k b. length b = 16 \<longrightarrow>
        length (blk_enc A k b) = 16 \<and> length (blk_dec A k b) = 16 \<and> blk_dec A k (blk_enc A k b) = b)"

function cbc_encrypt :: "block_prim \<Rightarrow> bytes \<Rightarrow> bytes \<Rightarrow> bytes \<Rightarrow> bytes" where
  "cbc_encrypt A k prev data =
     (if data = [] then []
      else let c = blk_enc A k (xor_bytes (take 16 data) prev)
           in c @ cbc_encrypt A k c (drop 16 data))"
  by pat_completeness auto
termination
  by (relation "measure (\<lambda>(A, k, prev, data). length data)") auto

function cbc_decrypt :: "block_prim \<Rightarrow> bytes \<Rightarrow> bytes \<Rightarrow> bytes \<Rightarrow> bytes" where
  "cbc_decrypt A k prev data =
     (if data = [] then []
      else let c = take 16 data
           in xor_bytes (blk_dec A k c) prev @ cbc_decrypt A k c (drop 16 data))"
  by pat_completeness auto
termination
  by (relation "measure (\<lambda>(A, k, prev, data). length data)") auto

text \<open>CFB with a 128-bit segment; the last segment may be short.\<close>

function cfb_encrypt :: "block_prim \<Rightarrow> bytes \<Rightarrow> bytes \<Rightarrow> bytes \<Rightarrow> bytes" where
  "cfb_encrypt A k prev data =
     (if data = [] then []
      else let c = xor_bytes (take 16 data) (blk_enc A k prev)
           in c @ cfb_encrypt A k c (drop 16 data))"
  by pat_completeness auto
termination
  by (relation "measure (\<lambda>(A, k, prev, data). length data)") auto

function cfb_decrypt :: "block_prim \<Rightarrow> bytes \<Rightarrow> bytes \<Rightarrow> bytes \<Rightarrow> bytes" where
  "cfb_decrypt A k prev data =
     (if data = [] then []
      else let c = take 16 data
           in xor_bytes c (blk_enc A k prev) @ cfb_decrypt A k c (drop 16 data))"
  by pat_completeness auto
termination
  by (relation "measure (\<lambda>(A, k, prev, data). length data)") auto

text \<open>OFB: the key stream is the iterated encryption of the IV; both directions are the same.\<close>

function ofb_crypt :: "block_prim \<Rightarrow> bytes \<Rightarrow> bytes \<Rightarrow> bytes \<Rightarrow> bytes" where
  "ofb_crypt A k prev data =
     (if data = [] then []
      else let s = blk_enc A k prev
           in xor_bytes (take 16 data) s @ ofb_crypt A k s (drop 16 data))"
  by pat_completeness auto
termination
  by (relation "measure (\<lambda>(A, k, prev, data). length data)") auto

text \<open>CTR: the counter block is a 128-bit big-endian integer, incremented with wrap-around.\<close>

fun inc_le :: "bytes \<Rightarrow> bytes" where
  "inc_le [] = []"
| "inc_le (b # bs) = (if b = 255 then 0 # inc_le bs else (b + 1) # bs)"

definition inc_be :: "bytes \<Rightarrow> bytes" where
  "inc_be ctr = rev (inc_le (rev ctr))"

function ctr_crypt :: "block_prim \<Rightarrow> bytes \<Rightarrow> bytes \<Rightarrow> bytes \<Rightarrow> bytes" where
  "ctr_crypt A k ctr data =
     (if data = [] then []
      else xor_bytes (take 16 data) (blk_enc A k ctr) @ ctr_crypt A k (inc_be ctr) (drop 16 data))"
  by pat_completeness auto
termination
  by (relation "measure (\<lambda>(A, k, ctr, data). length data)") auto

declare cbc_encrypt.simps [simp del] cbc_decrypt.simps [simp del]
  cfb_encrypt.simps [simp del] cfb_decrypt.simps [simp del]
  ofb_crypt.simps [simp del] ctr_crypt.simps [simp del]

text \<open>
  A \<open>Cipher(algorithms.AES(key), modes.M(iv))\<close> object.  Its construction raises
  \<open>ValueError\<close> for a key that is not 16, 24 or 32 bytes long and for an IV (nonce, for CTR)
  that is not 16 bytes long.
\<close>

datatype cipher_ctx = Cipher string bytes bytes

definition Cipher_new :: "string \<Rightarrow> bytes \<Rightarrow> bytes \<Rightarrow> error + cipher_ctx" where
  "Cipher_new mode key iv =
     (if length key \<notin> {16, 24, 32} then Inl (ValueError ''Invalid key size for AES.'')
      else if length iv \<noteq> 16 then Inl (ValueError ''Invalid IV size.'')
      else Inr (Cipher mode key iv))"

text \<open>
  \<open>encryptor.update(data) + encryptor.finalize()\<close> and the same for the decryptor.  In CBC
  mode \<open>finalize\<close> raises \<open>ValueError\<close> when the data is not a whole number of blocks.
\<close>

fun encryptor_run :: "block_prim \<Rightarrow> cipher_ctx \<Rightarrow> bytes \<Rightarrow> error + bytes" where
  "encryptor_run A (Cipher mode key iv) data =
     (if mode = ''CBC'' then
        (if length data mod 16 \<noteq> 0
         then Inl (ValueError ''The length of the provided data is not a multiple of the block length.'')
         else Inr (cbc_encrypt A key iv data))
      else if mode = ''CFB'' then Inr (cfb_encrypt A key iv data)
      else if mode = ''OFB'' then Inr (ofb_crypt A key iv data)
      else Inr (ctr_crypt A key iv data))"

fun decryptor_run :: "block_prim \<Rightarrow> cipher_ctx \<Rightarrow> bytes \<Rightarrow> error + bytes" where
  "decryptor_run A (Cipher mode key iv) data =
     (if mode = ''CBC'' then
        (if length data mod 16 \<noteq> 0
         then Inl (ValueError ''The length of the provided data is not a multiple of the block length.'')
         else Inr (cbc_decrypt A key iv data))
      else if mode = ''CFB'' then Inr (cfb_decrypt A key iv data)
      else if mode = ''OFB'' then Inr (ofb_crypt A key iv data)
      else Inr (ctr_crypt A key iv data))"

section \<open>AESCipher (aes.py)\<close>

text \<open>
  The keyword arguments that the cipher methods read with \<open>kwargs.get\<close>.  RSA key objects
  are values of the library, of the types \<open>'pk\<close> (public) and \<open>'sk\<close> (private).
\<close>

record ('pk, 'sk) kwargs =
  kw_iv :: "bytes option"
  kw_associated_data :: "bytes option"
  kw_public_key :: "'pk option"
  kw_public_pem :: "bytes option"
  kw_private_key :: "'sk option"
  kw_private_pem :: "bytes option"
  kw_passphrase :: "string option"

definition no_kwargs :: "('pk, 'sk) kwargs" where
  "no_kwargs = \<lparr> kw_iv = None, kw_associated_data = None, kw_public_key = None,
                 kw_public_pem = None, kw_private_key = None, kw_private_pem = None,
                 kw_passphrase = None \<rparr>"

text \<open>
  \<open>AESCipher._get_cipher\<close>.  For a mode outside the four branches the method falls off
  its end and returns \<open>None\<close>.
\<close>

definition get_cipher :: "nat \<Rightarrow> string \<Rightarrow> bytes \<Rightarrow> bytes \<Rightarrow> error + cipher_ctx option" where
  "get_cipher key_size mode key iv =
     (if length key * 8 \<noteq> key_size
      then Inl (ValueError (''key length mismatch: '' @ str_nat key_size @ '' bits needed, got ''
                              @ str_nat (length key * 8) @ '' bits''))
      else if mode \<in> {''CBC'', ''CFB'', ''OFB'', ''CTR''} then
        (case Cipher_new mode key iv of Inl e \<Rightarrow> Inl e | Inr c \<Rightarrow> Inr (Some c))
      else Inr None)"

text \<open>
  \<open>AESCipher.encrypt_data\<close> and \<open>decrypt_data\<close>.  \<open>not iv\<close> holds for a missing and for an
  empty IV.  Calling \<open>.encryptor()\<close> on \<open>None\<close> raises \<open>AttributeError\<close>.  Every exception
  inside the \<open>try\<close> is logged and raised again.
\<close>

definition AES_encrypt_data ::
  "block_prim \<Rightarrow> nat \<Rightarrow> string \<Rightarrow> bytes \<Rightarrow> bytes \<Rightarrow> ('pk, 'sk) kwargs \<Rightarrow> error + bytes" where
  "AES_encrypt_data A key_size mode data key kw =
     (case kw_iv kw of
        None \<Rightarrow> Inl (ValueError ''missing initialisation vector (iv)'')
      | Some iv \<Rightarrow>
          if iv = [] then Inl (ValueError ''missing initialisation vector (iv)'')
          else (case get_cipher key_size mode key iv of
                  Inl e \<Rightarrow> Inl e
                | Inr None \<Rightarrow> Inl (OtherError ''AttributeError'')
                | Inr (Some c) \<Rightarrow>
                    if mode = ''CBC'' then encryptor_run A c (pkcs7_pad data)
                    else encryptor_run A c data))"

definition AES_decrypt_data ::
  "block_prim \<Rightarrow> nat \<Rightarrow> string \<Rightarrow> bytes \<Rightarrow> bytes \<Rightarrow> ('pk, 'sk) kwargs \<Rightarrow> error + bytes" where
  "AES_decrypt_data A key_size mode data key kw =
     (case kw_iv kw of
        None \<Rightarrow> Inl (ValueError ''missing initialisation vector (iv)'')
      | Some iv \<Rightarrow>
          if iv = [] then Inl (ValueError ''missing initialisation vector (iv)'')
          else (case get_cipher key_size mode key iv of
                  Inl e \<Rightarrow> Inl e
                | Inr None \<Rightarrow> Inl (OtherError ''AttributeError'')
                | Inr (Some c) \<Rightarrow>
                    if mode = ''CBC'' then
                      (case decryptor_run A c data of
                         Inl e \<Rightarrow> Inl e
                       | Inr decrypted_padded_data \<Rightarrow> pkcs7_unpad decrypted_padded_data)
                    else decryptor_run A c data))"

text \<open>
  The operating system's random source: an unbounded tape of bytes.  \<open>os.urandom(n)\<close>
  takes the next \<open>n\<close> bytes.
\<close>

type_synonym entropy = "nat \<Rightarrow> byte"

definition urandom :: "nat \<Rightarrow> entropy \<Rightarrow> bytes \<times> entropy" where
  "urandom n tape = (map tape [0..<n], \<lambda>i. tape (n + i))"

text \<open>
  \<open>AESCipher.generate_key\<close>: the \<open>key\<close> and \<open>iv\<close> entries of the returned dict (the other
  entries are their base64 copies and the instance's attributes), and the tape afterwards.
\<close>

definition AES_generate_key :: "nat \<Rightarrow> entropy \<Rightarrow> (bytes \<times> bytes) \<times> entropy" where
  "AES_generate_key key_size tape =
     (let (key, tape1) = urandom (key_size div 8) tape;
          (iv, tape2) = urandom 16 tape1
      in ((key, iv), tape2))"

section \<open>CryptoBase: the chunked file loops (crypto\_base.py)\<close>

text \<open>
  The body of the \<open>while True\<close> loop over the chunks read: each chunk is transformed and
  written; the first exception ends the loop, and what was written before stays in the
  output file.  The result is the success flag and the bytes written.
\<close>

fun process_chunks :: "(bytes \<Rightarrow> error + bytes) \<Rightarrow> bytes list \<Rightarrow> bytes \<Rightarrow> bool \<times> bytes" where
  "process_chunks f [] written = (True, written)"
| "process_chunks f (chunk # rest) written =
     (case f chunk of
        Inl e \<Rightarrow> (False, written)
      | Inr out \<Rightarrow> process_chunks f rest (written @ out))"

text \<open>
  \<open>CryptoBase.encrypt_file\<close>; the argument \<open>enc\<close> is the bound call
  \<open>self.encrypt_data(chunk, key, **kwargs)\<close> of the subclass.  \<open>os.path.getsize\<close> raises
  for a missing input; opening the output for writing truncates it, also when it is the
  input file itself.  The progress callback is not modelled.
\<close>

definition CryptoBase_encrypt_file ::
  "(bytes \<Rightarrow> error + bytes) \<Rightarrow> filesystem \<Rightarrow> string \<Rightarrow> string \<Rightarrow> nat \<Rightarrow> bool \<times> filesystem" where
  "CryptoBase_encrypt_file enc fs input_file output_file chunk_size =
     (case fs input_file of
        None \<Rightarrow> (False, fs)
      | Some _ \<Rightarrow>
          (let fs1 = fs(output_file \<mapsto> []);
               data = (case fs1 input_file of None \<Rightarrow> [] | Some d \<Rightarrow> d);
               (ok, written) = process_chunks enc (chunks chunk_size data) []
           in (ok, fs1(output_file \<mapsto> written))))"

text \<open>\<open>CryptoBase.decrypt_file\<close>: the same loop around \<open>self.decrypt_data\<close>.\<close>

definition CryptoBase_decrypt_file ::
  "(bytes \<Rightarrow> error + bytes) \<Rightarrow> filesystem \<Rightarrow> string \<Rightarrow> string \<Rightarrow> nat \<Rightarrow> bool \<times> filesystem" where
  "CryptoBase_decrypt_file dec fs input_file output_file chunk_size =
     (case fs input_file of
        None \<Rightarrow> (False, fs)
      | Some _ \<Rightarrow>
          (let fs1 = fs(output_file \<mapsto> []);
               data = (case fs1 input_file of None \<Rightarrow> [] | Some d \<Rightarrow> d);
               (ok, written) = process_chunks dec (chunks chunk_size data) []
           in (ok, fs1(output_file \<mapsto> written))))"

text \<open>\<open>AESCipher\<close> inherits both file methods.\<close>

definition AES_encrypt_file ::
  "block_prim \<Rightarrow> nat \<Rightarrow> string \<Rightarrow> filesystem \<Rightarrow> string \<Rightarrow> string \<Rightarrow> bytes \<Rightarrow> nat
     \<Rightarrow> ('pk, 'sk) kwargs \<Rightarrow> bool \<times> filesystem" where
  "AES_encrypt_file A key_size mode fs input_file output_file key chunk_size kw =
     CryptoBase_encrypt_file (\<lambda>chunk. AES_encrypt_data A key_size mode chunk key kw)
       fs input_file output_file chunk_size"

definition AES_decrypt_file ::
  "block_prim \<Rightarrow> nat \<Rightarrow> string \<Rightarrow> filesystem \<Rightarrow> string \<Rightarrow> string \<Rightarrow> bytes \<Rightarrow> nat
     \<Rightarrow> ('pk, 'sk) kwargs \<Rightarrow> bool \<times> filesystem" where
  "AES_decrypt_file A key_size mode fs input_file output_file key chunk_size kw =
     CryptoBase_decrypt_file (\<lambda>chunk. AES_decrypt_data A key_size mode chunk key kw)
       fs input_file output_file chunk_size"

section \<open>RSACipher (rsa.py)\<close>

text \<open>
  The RSA operations of the \<open>cryptography\<close> package are parameters: OAEP encryption with
  MGF1 and SHA-256 (randomised, so it reads the random tape), its decryption, the PEM
  loaders and writers, and key generation.
\<close>

record ('pk, 'sk) rsa_prim =
  rsa_oaep_encrypt :: "'pk \<Rightarrow> entropy \<Rightarrow> bytes \<Rightarrow> error + bytes"
  rsa_oaep_decrypt :: "'sk \<Rightarrow> bytes \<Rightarrow> error + bytes"
  load_pem_public_key :: "bytes \<Rightarrow> error + 'pk"
  load_pem_private_key :: "bytes \<Rightarrow> bytes option \<Rightarrow> error + 'sk"
  rsa_generate_private_key :: "nat \<Rightarrow> entropy \<Rightarrow> 'sk"
  rsa_public_key :: "'sk \<Rightarrow> 'pk"
  private_bytes_pem :: "'sk \<Rightarrow> bytes option \<Rightarrow> bytes"
  public_bytes_pem :: "'pk \<Rightarrow> bytes"

text \<open>
  What the package promises for a matching key pair of \<open>key_size\<close> bits: every message
  within the OAEP bound of \<open>key_size / 8 - 2 * 32 - 2\<close> bytes is encrypted, whatever the
  random tape, to a ciphertext as long as the modulus, and the private key decrypts the
  result to the message.
\<close>

definition rsa_keypair_ok :: "('pk, 'sk) rsa_prim \<Rightarrow> nat \<Rightarrow> 'sk \<Rightarrow> 'pk \<Rightarrow> bool" where
  "rsa_keypair_ok R key_size sk pk =
     (\<forall>tape m. length m + 66 \<le> key_size div 8 \<longrightarrow>
        (\<exists>c. rsa_oaep_encrypt R pk tape m = Inr c \<and> length c = key_size div 8
           \<and> rsa_oaep_decrypt R sk c = Inr m))"


text \<open>Python's truth value of an optional byte string: \<open>None\<close> and \<open>b''\<close> are false.\<close>

definition truthy :: "'a list option \<Rightarrow> bool" where
  "truthy x = (case x of None \<Rightarrow> False | Some v \<Rightarrow> v \<noteq> [])"

text \<open>\<open>str.encode('utf-8')\<close>: a \<open>string\<close> holds the UTF-8 bytes of the Python text.\<close>

definition encode_utf8 :: "string \<Rightarrow> bytes" where
  "encode_utf8 s = map (\<lambda>c. of_nat (of_char c)) s"



text \<open>
  The public key that \<open>encrypt_data\<close> and \<open>encrypt_file\<close> use: the \<open>public_key\<close> argument,
  or else the key loaded from \<open>public_pem\<close>.  Called only when one of the two is given.
\<close>

definition resolve_public_key :: "('pk, 'sk) rsa_prim \<Rightarrow> ('pk, 'sk) kwargs \<Rightarrow> error + 'pk" where
  "resolve_public_key R kw =
     (case kw_public_key kw of
        Some pk \<Rightarrow> Inr pk
      | None \<Rightarrow> load_pem_public_key R (the (kw_public_pem kw)))"

definition resolve_private_key :: "('pk, 'sk) rsa_prim \<Rightarrow> ('pk, 'sk) kwargs \<Rightarrow> error + 'sk" where
  "resolve_private_key R kw =
     (case kw_private_key kw of
        Some sk \<Rightarrow> Inr sk
      | None \<Rightarrow>
          (if truthy (kw_passphrase kw)
           then load_pem_private_key R (the (kw_private_pem kw))
                  (Some (encode_utf8 (the (kw_passphrase kw))))
           else load_pem_private_key R (the (kw_private_pem kw)) None))"



text \<open>\<open>int.to_bytes(4, byteorder='big')\<close> and \<open>int.from_bytes(_, byteorder='big')\<close>.\<close>

definition to_bytes4_be :: "nat \<Rightarrow> error + bytes" where
  "to_bytes4_be n =
     (if 2 ^ 32 \<le> n then Inl (OtherError ''OverflowError'')
      else Inr [of_nat (n div 2 ^ 24), of_nat (n div 2 ^ 16 mod 256),
                of_nat (n div 2 ^ 8 mod 256), of_nat (n mod 256)])"

definition from_bytes_be :: "bytes \<Rightarrow> nat" where
  "from_bytes_be bs = foldl (\<lambda>a b. a * 256 + unat b) 0 bs"

definition remove_if_exists :: "string \<Rightarrow> filesystem \<Rightarrow> filesystem" where
  "remove_if_exists path fs = fs(path := None)"

text \<open>
  \<open>RSACipher.encrypt_file\<close>.  The missing-key check is outside the \<open>try\<close>, so that
  \<open>ValueError\<close> reaches the caller; every later exception removes the temporary file and
  returns \<open>False\<close>.  The result of \<open>aes.encrypt_file\<close> is not looked at.
\<close>

definition RSA_encrypt_file ::
  "('pk, 'sk) rsa_prim \<Rightarrow> block_prim \<Rightarrow> entropy \<Rightarrow> filesystem \<Rightarrow> string \<Rightarrow> string \<Rightarrow> bytes \<Rightarrow> nat
     \<Rightarrow> ('pk, 'sk) kwargs \<Rightarrow> error + bool \<times> filesystem" where
  "RSA_encrypt_file R A tape fs input_file output_file key chunk_size kw =
     (if kw_public_key kw = None \<and> \<not> truthy (kw_public_pem kw)
      then Inl (ValueError ''missing RSA public key'')
      else Inr
        (let temp_file = output_file @ ''.temp'' in
         case resolve_public_key R kw of
           Inl e \<Rightarrow> (False, remove_if_exists temp_file fs)
         | Inr public_key \<Rightarrow>
             (let ((aes_key, aes_iv), tape1) = AES_generate_key 256 tape;
                  (_, fs1) = AES_encrypt_file A 256 ''CBC'' fs input_file temp_file aes_key chunk_size
                               ((no_kwargs :: ('pk, 'sk) kwargs)\<lparr> kw_iv := Some aes_iv \<rparr>);
                  key_data = aes_key @ aes_iv
              in case rsa_oaep_encrypt R public_key tape1 key_data of
                   Inl e \<Rightarrow> (False, remove_if_exists temp_file fs1)
                 | Inr encrypted_key \<Rightarrow>
                     (let fs2 = fs1(output_file \<mapsto> [])
                      in case to_bytes4_be (length encrypted_key) of
                           Inl e \<Rightarrow> (False, remove_if_exists temp_file fs2)
                         | Inr length_bytes \<Rightarrow>
                             (let fs3 = fs2(output_file \<mapsto> length_bytes @ encrypted_key)
                              in case fs3 temp_file of
                                   None \<Rightarrow> (False, remove_if_exists temp_file fs3)
                                 | Some temp_data \<Rightarrow>
                                     (True, remove_if_exists temp_file
                                        (fs3(output_file \<mapsto> length_bytes @ encrypted_key
                                               @ concat (chunks chunk_size temp_data)))))))))"

text \<open>
  \<open>RSACipher.decrypt_file\<close>.  \<open>data[:-16]\<close> and \<open>data[-16:]\<close> split off the last 16
  bytes (everything, when there are fewer).  The result of \<open>aes.decrypt_file\<close> is not
  looked at: the method returns \<open>True\<close> also when the AES decryption failed.
\<close>

definition RSA_decrypt_file ::
  "('pk, 'sk) rsa_prim \<Rightarrow> block_prim \<Rightarrow> filesystem \<Rightarrow> string \<Rightarrow> string \<Rightarrow> bytes \<Rightarrow> nat
     \<Rightarrow> ('pk, 'sk) kwargs \<Rightarrow> error + bool \<times> filesystem" where
  "RSA_decrypt_file R A fs input_file output_file key chunk_size kw =
     (if kw_private_key kw = None \<and> \<not> truthy (kw_private_pem kw)
      then Inl (ValueError ''missing RSA private key'')
      else Inr
        (let temp_file = input_file @ ''.temp'';
             failed = (False, remove_if_exists temp_file fs) in
         case resolve_private_key R kw of
           Inl e \<Rightarrow> failed
         | Inr private_key \<Rightarrow>
             (case fs input_file of
                None \<Rightarrow> failed
              | Some content \<Rightarrow>
                  (let key_length_bytes = take 4 content in
                   if length key_length_bytes \<noteq> 4 then failed
                   else
                     (let key_length = from_bytes_be key_length_bytes;
                          encrypted_key = take key_length (drop 4 content) in
                      if length encrypted_key \<noteq> key_length then failed
                      else
                        (case rsa_oaep_decrypt R private_key encrypted_key of
                           Inl e \<Rightarrow> failed
                         | Inr decrypted_key_data \<Rightarrow>
                             (let aes_key = take (length decrypted_key_data - 16) decrypted_key_data;
                                  aes_iv = drop (length decrypted_key_data - 16) decrypted_key_data
                              in case AESCipher_init (length aes_key * 8) ''CBC'' of
                                   Inl e \<Rightarrow> failed
                                 | Inr aes \<Rightarrow>
                                     (let rest = drop (4 + key_length) content;
                                          fs1 = fs(temp_file \<mapsto> concat (chunks chunk_size rest));
                                          (_, fs2) = AES_decrypt_file A (length aes_key * 8) ''CBC'' fs1
                                                       temp_file output_file aes_key chunk_size
                                                       ((no_kwargs :: ('pk, 'sk) kwargs)\<lparr> kw_iv := Some aes_iv \<rparr>)
                                      in (True, remove_if_exists temp_file fs2)))))))))"

section \<open>ChaCha20Cipher (chacha20.py)\<close>

text \<open>
  \<open>ChaCha20Poly1305\<close> of the \<open>cryptography\<close> package, as RFC 8439 builds it from two
  primitives, which are parameters here: the ChaCha20 key stream of a key and a nonce (the
  byte at each position), and the Poly1305 tag of the associated data and the ciphertext
  under the one-time key of that key and nonce.  The sealed message is the plaintext XORed
  with the key stream, followed by the tag.
\<close>

record aead_prim =
  chacha20_stream :: "bytes \<Rightarrow> bytes \<Rightarrow> nat \<Rightarrow> byte"
  poly1305_tag :: "bytes \<Rightarrow> bytes \<Rightarrow> bytes \<Rightarrow> bytes \<Rightarrow> bytes"


definition stream_xor :: "aead_prim \<Rightarrow> bytes \<Rightarrow> bytes \<Rightarrow> bytes \<Rightarrow> bytes" where
  "stream_xor P key nonce data = map2 (\<lambda>b i. b XOR chacha20_stream P key nonce i) data [0..<length data]"








section \<open>The cipher interface, by class\<close>








section \<open>KeyManager: saving and loading (key\_manager.py)\<close>

text \<open>
  The values of a key dict.  What \<open>json.dumps\<close> accepts is a \<open>json\<close> value (a float is
  kept as its mantissa and exponent); a byte string and any other Python object (an RSA
  key object) are not.  Values nested in lists and dicts are JSON values, as in every dict
  that a \<open>generate_key\<close> of this repository returns.
\<close>

datatype json =
    JStr string
  | JInt int
  | JFloat int int
  | JBool bool
  | JNull
  | JList "json list"
  | JDict "(string \<times> json) list"

datatype pyval =
    Plain json
  | Bytes bytes
  | Object

type_synonym pydict = "(string \<times> pyval) list"

text \<open>\<open>d[k] = v\<close> on an insertion-ordered dict.\<close>

fun dict_set :: "string \<Rightarrow> 'v \<Rightarrow> (string \<times> 'v) list \<Rightarrow> (string \<times> 'v) list" where
  "dict_set k v [] = [(k, v)]"
| "dict_set k v ((k', v') # d) = (if k' = k then (k', v) # d else (k', v') # dict_set k v d)"

definition dict_get :: "(string \<times> 'v) list \<Rightarrow> string \<Rightarrow> 'v option" where
  "dict_get d k = map_of d k"

text \<open>
  The library functions that the key manager calls, as parameters: PBKDF2-HMAC-SHA256,
  the URL-safe and the standard base64 codecs, Fernet (its token depends on the time and
  on 16 random bytes), and the JSON writer (with or without \<open>indent\<close>) and reader.
\<close>

record key_prim =
  pbkdf2_hmac_sha256 :: "bytes \<Rightarrow> bytes \<Rightarrow> nat \<Rightarrow> nat \<Rightarrow> bytes"
  urlsafe_b64encode :: "bytes \<Rightarrow> bytes"
  fernet_encrypt :: "bytes \<Rightarrow> nat \<Rightarrow> bytes \<Rightarrow> bytes \<Rightarrow> bytes"
  fernet_decrypt :: "bytes \<Rightarrow> bytes \<Rightarrow> error + bytes"
  json_dumps :: "nat option \<Rightarrow> (string \<times> json) list \<Rightarrow> bytes"
  json_loads :: "bytes \<Rightarrow> error + json"
  b64encode :: "bytes \<Rightarrow> string"
  b64decode :: "string \<Rightarrow> error + bytes"

text \<open>\<open>str.startswith\<close>, \<open>str.endswith\<close> and \<open>str.replace\<close>.\<close>

definition startswith :: "'a list \<Rightarrow> 'a list \<Rightarrow> bool" where
  "startswith s p = (take (length p) s = p)"

definition endswith :: "'a list \<Rightarrow> 'a list \<Rightarrow> bool" where
  "endswith s p = (length p \<le> length s \<and> drop (length s - length p) s = p)"

function str_replace :: "string \<Rightarrow> string \<Rightarrow> string \<Rightarrow> string" where
  "str_replace old new s =
     (if old = [] \<or> s = [] then s
      else if startswith s old then new @ str_replace old new (drop (length old) s)
      else hd s # str_replace old new (tl s))"
  by pat_completeness auto
termination
  by (relation "measure (\<lambda>(old, new, s). length s)") (auto simp: neq_Nil_conv)

declare str_replace.simps [simp del]

definition replace_char :: "char \<Rightarrow> char \<Rightarrow> string \<Rightarrow> string" where
  "replace_char old new s = map (\<lambda>c. if c = old then new else c) s"

text \<open>The first statement of \<open>save_key\<close>: spaces, slashes and backslashes become underscores.\<close>

definition sanitize_key_name :: "string \<Rightarrow> string" where
  "sanitize_key_name key_name =
     replace_char (CHR 0x5C) CHR ''_'' (replace_char CHR ''/'' CHR ''_'' (replace_char CHR '' '' CHR ''_'' key_name))"

text \<open>\<open>KeyManager._derive_key_from_password\<close> with the salt given.\<close>

definition derive_key_from_password :: "key_prim \<Rightarrow> string \<Rightarrow> bytes \<Rightarrow> bytes" where
  "derive_key_from_password K password salt =
     urlsafe_b64encode K (pbkdf2_hmac_sha256 K (encode_utf8 password) salt 100000 32)"

definition ENCRYPTED_marker :: bytes where
  "ENCRYPTED_marker = encode_utf8 ''ENCRYPTED:''"

text \<open>
  The record that \<open>save_key\<close> serialises: \<open>name\<close>, \<open>algorithm\<close> and \<open>created_at\<close> first, then
  every entry of the key dict that is serialisable as it is, with byte strings stored as
  base64 text and other objects skipped.  \<open>now\<close> is \<open>datetime.now().isoformat()\<close>.
\<close>

definition dict_get_default :: "pydict \<Rightarrow> string \<Rightarrow> pyval \<Rightarrow> pyval" where
  "dict_get_default d k dflt = (case dict_get d k of Some v \<Rightarrow> v | None \<Rightarrow> dflt)"

fun save_entry :: "key_prim \<Rightarrow> string \<times> pyval \<Rightarrow> pydict \<Rightarrow> pydict" where
  "save_entry K (key, Plain j) save_data = dict_set key (Plain j) save_data"
| "save_entry K (key, Bytes b) save_data = dict_set key (Plain (JStr (b64encode K b))) save_data"
| "save_entry K (key, Object) save_data = save_data"

definition save_data_of :: "key_prim \<Rightarrow> pydict \<Rightarrow> string \<Rightarrow> string \<Rightarrow> pydict" where
  "save_data_of K key_data key_name now =
     fold (save_entry K) key_data
       [(''name'', Plain (JStr key_name)),
        (''algorithm'', dict_get_default key_data ''algorithm'' (Plain (JStr ''unknown''))),
        (''created_at'', dict_get_default key_data ''created_at'' (Plain (JStr now)))]"

text \<open>
  What \<open>json.dumps\<close> is given: it raises \<open>TypeError\<close> for a value that is not serialisable,
  which here can only be an \<open>algorithm\<close> or \<open>created_at\<close> entry that \<open>key_data.get\<close> copied.
\<close>

fun to_json :: "pydict \<Rightarrow> error + (string \<times> json) list" where
  "to_json [] = Inr []"
| "to_json ((k, Plain j) # d) = (case to_json d of Inl e \<Rightarrow> Inl e | Inr js \<Rightarrow> Inr ((k, j) # js))"
| "to_json ((k, v) # d) = Inl (OtherError ''TypeError: Object is not JSON serializable'')"

text \<open>
  \<open>KeyManager.save_key\<close>: returns the path of the key file and the file system afterwards,
  or the exception of \<open>json.dumps\<close> (the method has no \<open>try\<close>; the state of the store after
  that exception is not modelled).  \<open>tape\<close> supplies the salt and Fernet's random bytes,
  \<open>time\<close> is Fernet's timestamp.
\<close>

definition save_key ::
  "key_prim \<Rightarrow> KeyManager \<Rightarrow> entropy \<Rightarrow> nat \<Rightarrow> string \<Rightarrow> filesystem \<Rightarrow> pydict \<Rightarrow> string
     \<Rightarrow> string option \<Rightarrow> error + string \<times> filesystem" where
  "save_key K km tape time now fs key_data key_name password =
     (let key_name = sanitize_key_name key_name;
          key_file = key_file_of km key_name
      in case to_json (save_data_of K key_data key_name now) of
           Inl e \<Rightarrow> Inl e
         | Inr save_data \<Rightarrow>
             if truthy password then
               (let (salt, tape1) = urandom 16 tape;
                    derived_key = derive_key_from_password K (the password) salt;
                    json_data = json_dumps K None save_data;
                    (iv, tape2) = urandom 16 tape1;
                    encrypted_data = fernet_encrypt K derived_key time iv json_data
                in Inr (key_file, fs(key_file \<mapsto> ENCRYPTED_marker @ salt @ encrypted_data)))
             else Inr (key_file, fs(key_file \<mapsto> json_dumps K (Some 2) save_data)))"

text \<open>
  The loop of \<open>load_key\<close> over the parsed record: a field whose name ends in \<open>_b64\<close> or is
  one of \<open>key\<close>, \<open>iv\<close>, \<open>private_pem\<close>, \<open>public_pem\<close> is kept, and when it is text that
  decodes as base64, the bytes are stored under the name without \<open>_b64\<close>.
\<close>

definition is_byte_field :: "string \<Rightarrow> bool" where
  "is_byte_field key =
     (endswith key ''_b64'' \<or> key \<in> {''key'', ''iv'', ''private_pem'', ''public_pem''})"

fun load_entry :: "key_prim \<Rightarrow> string \<times> json \<Rightarrow> pydict \<Rightarrow> pydict" where
  "load_entry K (key, value) result_data =
     (if is_byte_field key then
        (case value of
           JStr s \<Rightarrow>
             (case b64decode K s of
                Inr decoded \<Rightarrow>
                  dict_set (str_replace ''_b64'' [] key) (Bytes decoded)
                    (dict_set key (Plain value) result_data)
              | Inl e \<Rightarrow> dict_set key (Plain value) (dict_set key (Plain value) result_data))
         | _ \<Rightarrow> dict_set key (Plain value) result_data)
      else dict_set key (Plain value) result_data)"

text \<open>
  \<open>KeyManager.load_key\<close>.  Every failure (no such file, a protected file and no password,
  a token that Fernet rejects, text that is not a JSON object) is logged and gives \<open>None\<close>;
  no exception leaves the method.
\<close>

definition load_key ::
  "key_prim \<Rightarrow> KeyManager \<Rightarrow> filesystem \<Rightarrow> string \<Rightarrow> string option \<Rightarrow> pydict option" where
  "load_key K km fs key_name password =
     (let key_file = key_file_of km key_name
      in case fs key_file of
           None \<Rightarrow> None
         | Some file_data \<Rightarrow>
             (let parsed =
                (if startswith file_data ENCRYPTED_marker then
                   (if \<not> truthy password then None
                    else
                      (let salt = take 16 (drop 10 file_data);
                           encrypted_data = drop 26 file_data;
                           derived_key = derive_key_from_password K (the password) salt
                       in case fernet_decrypt K derived_key encrypted_data of
                            Inl e \<Rightarrow> None
                          | Inr decrypted_data \<Rightarrow>
                              (case json_loads K decrypted_data of
                                 Inl e \<Rightarrow> None
                               | Inr key_data \<Rightarrow> Some key_data)))
                 else
                   (case json_loads K file_data of
                      Inl e \<Rightarrow> None
                    | Inr key_data \<Rightarrow> Some key_data))
              in case parsed of
                   Some (JDict items) \<Rightarrow> Some (fold (load_entry K) items [])
                 | _ \<Rightarrow> None))"

section \<open>Small instances of the library primitives\<close>

text \<open>
  Concrete functions that meet the contracts stated for the primitives of the
  \<open>cryptography\<close> package and of the standard library.  They are not the real algorithms;
  they show that the contracts can be met and give the general theorems concrete instances.
\<close>

definition toy_block :: block_prim where
  "toy_block =
     \<lparr> blk_enc = (\<lambda>k b. xor_bytes b (take 16 (k @ replicate 16 0))),
       blk_dec = (\<lambda>k b. xor_bytes b (take 16 (k @ replicate 16 0))) \<rparr>"

text \<open>
  A key of the RSA stand-in is the length of its modulus in bytes; a ciphertext is the
  message, a byte 1, and zero bytes up to the modulus length.
\<close>

definition toy_rsa :: "(nat, nat) rsa_prim" where
  "toy_rsa =
     \<lparr> rsa_oaep_encrypt = (\<lambda>pk tape m.
         if length m + 66 \<le> pk
         then Inr (m @ [1] @ replicate (pk - 1 - length m) 0)
         else Inl (ValueError ''Encryption failed'')),
       rsa_oaep_decrypt = (\<lambda>sk c.
         let r = dropWhile (\<lambda>x. x = 0) (rev c)
         in if length c \<noteq> sk \<or> r = [] then Inl (ValueError ''Decryption failed'')
            else Inr (rev (tl r))),
       load_pem_public_key = (\<lambda>pem. Inr (length pem)),
       load_pem_private_key = (\<lambda>pem password. Inr (length pem)),
       rsa_generate_private_key = (\<lambda>key_size tape. key_size div 8),
       rsa_public_key = (\<lambda>sk. sk),
       private_bytes_pem = (\<lambda>sk password. replicate sk 0),
       public_bytes_pem = (\<lambda>pk. replicate pk 0) \<rparr>"



text \<open>
  The key-store stand-in: the derived key is the first 32 bytes of password and salt, a
  Fernet token is the key followed by the data, JSON text is not produced or parsed, and
  base64 text is the bytes as characters.
\<close>

definition toy_key_prim :: key_prim where
  "toy_key_prim =
     \<lparr> pbkdf2_hmac_sha256 = (\<lambda>password salt iterations n. take n (password @ salt @ replicate n 0)),
       urlsafe_b64encode = (\<lambda>b. b),
       fernet_encrypt = (\<lambda>key time iv data. key @ data),
       fernet_decrypt = (\<lambda>key token.
         if take (length key) token = key then Inr (drop (length key) token) else Inl InvalidToken),
       json_dumps = (\<lambda>indent d. concat (map (\<lambda>(k, v). encode_utf8 k) d)),
       json_loads = (\<lambda>text. Inl (ValueError ''Expecting value'')),
       b64encode = (\<lambda>b. map (\<lambda>x. char_of (unat x)) b),
       b64decode = (\<lambda>s. Inr (encode_utf8 s)) \<rparr>"

section \<open>Properties of the registry\<close>

lemma str_nat_128: "str_nat 128 = ''128''"
  by (simp add: str_nat.simps [of 128] str_nat.simps [of 12] str_nat.simps [of "Suc 0"] digit_char_def)

lemma str_nat_192: "str_nat 192 = ''192''"
  by (simp add: str_nat.simps [of 192] str_nat.simps [of 19] str_nat.simps [of "Suc 0"] digit_char_def)

lemma str_nat_256: "str_nat 256 = ''256''"
  by (simp add: str_nat.simps [of 256] str_nat.simps [of 25] str_nat.simps [of 2] digit_char_def)

lemma get_all_algorithms_crypto_factory:
  "get_all_algorithms crypto_factory =
     [''AES-128-CBC'', ''AES-192-CBC'', ''AES-256-CBC'',
      ''AES-128-CFB'', ''AES-192-CFB'', ''AES-256-CFB'',
      ''AES-128-CTR'', ''AES-192-CTR'', ''AES-256-CTR'',
      ''RSA-1024'', ''RSA-2048'', ''RSA-4096'', ''ChaCha20-Poly1305'']"
  by (simp add: get_all_algorithms_def crypto_factory_def register_algorithms_def)

lemma map_of_fst_notin: "name \<notin> set (map fst algs) \<Longrightarrow> map_of algs name = None"
  by (simp add: map_of_eq_None_iff)

lemma create_algorithm_unregistered:
  "name \<notin> set (get_all_algorithms algs) \<Longrightarrow>
   create_algorithm algs name = Inl (ValueError (''unsupported algorithm: '' @ name))"
  by (simp add: create_algorithm_def get_all_algorithms_def map_of_fst_notin)

lemma crypto_factory_entries:
  "crypto_factory =
     [(''AES-128-CBC'', \<lambda>_. AESCipher_init 128 ''CBC''),
      (''AES-192-CBC'', \<lambda>_. AESCipher_init 192 ''CBC''),
      (''AES-256-CBC'', \<lambda>_. AESCipher_init 256 ''CBC''),
      (''AES-128-CFB'', \<lambda>_. AESCipher_init 128 ''CFB''),
      (''AES-192-CFB'', \<lambda>_. AESCipher_init 192 ''CFB''),
      (''AES-256-CFB'', \<lambda>_. AESCipher_init 256 ''CFB''),
      (''AES-128-CTR'', \<lambda>_. AESCipher_init 128 ''CTR''),
      (''AES-192-CTR'', \<lambda>_. AESCipher_init 192 ''CTR''),
      (''AES-256-CTR'', \<lambda>_. AESCipher_init 256 ''CTR''),
      (''RSA-1024'', \<lambda>_. RSACipher_init 1024),
      (''RSA-2048'', \<lambda>_. RSACipher_init 2048),
      (''RSA-4096'', \<lambda>_. RSACipher_init 4096),
      (''ChaCha20-Poly1305'', \<lambda>_. ChaCha20Cipher_init)]"
  by (simp add: crypto_factory_def register_algorithms_def)

lemma create_algorithm_bindings:
  "map (\<lambda>name. (name, create_algorithm crypto_factory name)) (get_all_algorithms crypto_factory) =
     [(''AES-128-CBC'', Inr (AESCipher 128 ''CBC'')),
      (''AES-192-CBC'', Inr (AESCipher 192 ''CBC'')),
      (''AES-256-CBC'', Inr (AESCipher 256 ''CBC'')),
      (''AES-128-CFB'', Inr (AESCipher 128 ''CFB'')),
      (''AES-192-CFB'', Inr (AESCipher 192 ''CFB'')),
      (''AES-256-CFB'', Inr (AESCipher 256 ''CFB'')),
      (''AES-128-CTR'', Inr (AESCipher 128 ''CTR'')),
      (''AES-192-CTR'', Inr (AESCipher 192 ''CTR'')),
      (''AES-256-CTR'', Inr (AESCipher 256 ''CTR'')),
      (''RSA-1024'', Inr (RSACipher 1024)),
      (''RSA-2048'', Inr (RSACipher 2048)),
      (''RSA-4096'', Inr (RSACipher 4096)),
      (''ChaCha20-Poly1305'', Inr ChaCha20Cipher)]"
  unfolding get_all_algorithms_crypto_factory
  by (simp add: crypto_factory_entries create_algorithm_def AESCipher_init_def RSACipher_init_def
        ChaCha20Cipher_init_def)

lemma create_algorithm_cases:
  assumes "create_algorithm crypto_factory name = Inr c"
  shows "(name, c) \<in> set
     [(''AES-128-CBC'', AESCipher 128 ''CBC''),
      (''AES-192-CBC'', AESCipher 192 ''CBC''),
      (''AES-256-CBC'', AESCipher 256 ''CBC''),
      (''AES-128-CFB'', AESCipher 128 ''CFB''),
      (''AES-192-CFB'', AESCipher 192 ''CFB''),
      (''AES-256-CFB'', AESCipher 256 ''CFB''),
      (''AES-128-CTR'', AESCipher 128 ''CTR''),
      (''AES-192-CTR'', AESCipher 192 ''CTR''),
      (''AES-256-CTR'', AESCipher 256 ''CTR''),
      (''RSA-1024'', RSACipher 1024),
      (''RSA-2048'', RSACipher 2048),
      (''RSA-4096'', RSACipher 4096),
      (''ChaCha20-Poly1305'', ChaCha20Cipher)]"
  using assms
  unfolding crypto_factory_entries create_algorithm_def
  by (simp add: AESCipher_init_def RSACipher_init_def ChaCha20Cipher_init_def split: if_splits)

lemma create_algorithm_never_OFB:
  "create_algorithm crypto_factory name \<noteq> Inr (AESCipher s ''OFB'')"
proof
  assume "create_algorithm crypto_factory name = Inr (AESCipher s ''OFB'')"
  from create_algorithm_cases [OF this] show False by simp
qed

text \<open>
  Claim C10.  For each AES key size \<open>s\<close> in 128, 192, 256 the registry's
  \<open>create_algorithm\<close> raises the unsupported-algorithm \<open>ValueError\<close> for the name
  \<open>AES-s-OFB\<close>, although the constructor \<open>AESCipher(key_size=s, mode='OFB')\<close> itself
  succeeds and carries exactly that name.  The registered names are exactly the CBC, CFB
  and CTR variants of AES, RSA-1024/2048/4096 and ChaCha20-Poly1305, thirteen in this
  order, and \<open>create_algorithm\<close> builds for each of them the cipher of that variant; a
  name creates a cipher only if it is one of these bindings, so no name at all creates an
  AES cipher in OFB mode.
\<close>

theorem C10_no_OFB_registered:
  "(\<forall>s \<in> {128, 192, 256}.
      create_algorithm crypto_factory (''AES-'' @ str_nat s @ ''-OFB'')
        = Inl (ValueError (''unsupported algorithm: '' @ ''AES-'' @ str_nat s @ ''-OFB''))
    \<and> AESCipher_init s ''OFB'' = Inr (AESCipher s ''OFB'')
    \<and> cipher_name (AESCipher s ''OFB'') = ''AES-'' @ str_nat s @ ''-OFB'')
   \<and> set (get_all_algorithms crypto_factory) =
       {''AES-128-CBC'', ''AES-192-CBC'', ''AES-256-CBC'',
        ''AES-128-CFB'', ''AES-192-CFB'', ''AES-256-CFB'',
        ''AES-128-CTR'', ''AES-192-CTR'', ''AES-256-CTR'',
        ''RSA-1024'', ''RSA-2048'', ''RSA-4096'', ''ChaCha20-Poly1305''}
   \<and> map (\<lambda>name. (name, create_algorithm crypto_factory name))
         (get_all_algorithms crypto_factory) =
       [(''AES-128-CBC'', Inr (AESCipher 128 ''CBC'')),
        (''AES-192-CBC'', Inr (AESCipher 192 ''CBC'')),
        (''AES-256-CBC'', Inr (AESCipher 256 ''CBC'')),
        (''AES-128-CFB'', Inr (AESCipher 128 ''CFB'')),
        (''AES-192-CFB'', Inr (AESCipher 192 ''CFB'')),
        (''AES-256-CFB'', Inr (AESCipher 256 ''CFB'')),
        (''AES-128-CTR'', Inr (AESCipher 128 ''CTR'')),
        (''AES-192-CTR'', Inr (AESCipher 192 ''CTR'')),
        (''AES-256-CTR'', Inr (AESCipher 256 ''CTR'')),
        (''RSA-1024'', Inr (RSACipher 1024)),
        (''RSA-2048'', Inr (RSACipher 2048)),
        (''RSA-4096'', Inr (RSACipher 4096)),
        (''ChaCha20-Poly1305'', Inr ChaCha20Cipher)]
   \<and> (\<forall>name c. create_algorithm crypto_factory name = Inr c \<longrightarrow>
         (name, c) \<in> set
       [(''AES-128-CBC'', AESCipher 128 ''CBC''),
        (''AES-192-CBC'', AESCipher 192 ''CBC''),
        (''AES-256-CBC'', AESCipher 256 ''CBC''),
        (''AES-128-CFB'', AESCipher 128 ''CFB''),
        (''AES-192-CFB'', AESCipher 192 ''CFB''),
        (''AES-256-CFB'', AESCipher 256 ''CFB''),
        (''AES-128-CTR'', AESCipher 128 ''CTR''),
        (''AES-192-CTR'', AESCipher 192 ''CTR''),
        (''AES-256-CTR'', AESCipher 256 ''CTR''),
        (''RSA-1024'', RSACipher 1024),
        (''RSA-2048'', RSACipher 2048),
        (''RSA-4096'', RSACipher 4096),
        (''ChaCha20-Poly1305'', ChaCha20Cipher)])
   \<and> (\<forall>name s. create_algorithm crypto_factory name \<noteq> Inr (AESCipher s ''OFB''))"
proof -
  have a: "create_algorithm crypto_factory ''AES-128-OFB''
             = Inl (ValueError (''unsupported algorithm: '' @ ''AES-128-OFB''))"
    by (rule create_algorithm_unregistered) (simp add: get_all_algorithms_crypto_factory)
  have b: "create_algorithm crypto_factory ''AES-192-OFB''
             = Inl (ValueError (''unsupported algorithm: '' @ ''AES-192-OFB''))"
    by (rule create_algorithm_unregistered) (simp add: get_all_algorithms_crypto_factory)
  have c: "create_algorithm crypto_factory ''AES-256-OFB''
             = Inl (ValueError (''unsupported algorithm: '' @ ''AES-256-OFB''))"
    by (rule create_algorithm_unregistered) (simp add: get_all_algorithms_crypto_factory)
  have d: "set (get_all_algorithms crypto_factory) =
       {''AES-128-CBC'', ''AES-192-CBC'', ''AES-256-CBC'',
        ''AES-128-CFB'', ''AES-192-CFB'', ''AES-256-CFB'',
        ''AES-128-CTR'', ''AES-192-CTR'', ''AES-256-CTR'',
        ''RSA-1024'', ''RSA-2048'', ''RSA-4096'', ''ChaCha20-Poly1305''}"
    unfolding get_all_algorithms_crypto_factory by simp
  have e: "\<forall>s \<in> {128, 192, 256}.
      create_algorithm crypto_factory (''AES-'' @ str_nat s @ ''-OFB'')
        = Inl (ValueError (''unsupported algorithm: '' @ ''AES-'' @ str_nat s @ ''-OFB''))
    \<and> AESCipher_init s ''OFB'' = Inr (AESCipher s ''OFB'')
    \<and> cipher_name (AESCipher s ''OFB'') = ''AES-'' @ str_nat s @ ''-OFB''"
    using a b c by (simp add: str_nat_128 str_nat_192 str_nat_256 AESCipher_init_def)
  have f: "\<forall>name c. create_algorithm crypto_factory name = Inr c \<longrightarrow>
         (name, c) \<in> set
       [(''AES-128-CBC'', AESCipher 128 ''CBC''),
        (''AES-192-CBC'', AESCipher 192 ''CBC''),
        (''AES-256-CBC'', AESCipher 256 ''CBC''),
        (''AES-128-CFB'', AESCipher 128 ''CFB''),
        (''AES-192-CFB'', AESCipher 192 ''CFB''),
        (''AES-256-CFB'', AESCipher 256 ''CFB''),
        (''AES-128-CTR'', AESCipher 128 ''CTR''),
        (''AES-192-CTR'', AESCipher 192 ''CTR''),
        (''AES-256-CTR'', AESCipher 256 ''CTR''),
        (''RSA-1024'', RSACipher 1024),
        (''RSA-2048'', RSACipher 2048),
        (''RSA-4096'', RSACipher 4096),
        (''ChaCha20-Poly1305'', ChaCha20Cipher)]"
    using create_algorithm_cases by blast
  have g: "\<forall>name s. create_algorithm crypto_factory name \<noteq> Inr (AESCipher s ''OFB'')"
    using create_algorithm_never_OFB by blast
  show ?thesis
    by (intro conjI e d create_algorithm_bindings f g)
qed

theorem C10_no_OFB_registered_witness:
  "create_algorithm crypto_factory ''AES-256-OFB''
     = Inl (ValueError ''unsupported algorithm: AES-256-OFB'')
   \<and> AESCipher_init 256 ''OFB'' = Inr (AESCipher 256 ''OFB'')
   \<and> create_algorithm crypto_factory ''AES-256-CBC'' = Inr (AESCipher 256 ''CBC'')
   \<and> create_algorithm crypto_factory ''AES-256-CBC'' \<noteq> Inr (AESCipher 256 ''OFB'')"
proof -
  have r: "create_algorithm crypto_factory ''AES-256-CBC'' = Inr (AESCipher 256 ''CBC'')"
    by (simp add: crypto_factory_entries create_algorithm_def AESCipher_init_def)
  show ?thesis
    using C10_no_OFB_registered r by (simp add: str_nat_256)
qed

section \<open>Properties of byte strings, padding and the modes of operation\<close>

lemma length_xor_bytes [simp]: "length (xor_bytes a b) = min (length a) (length b)"
  by (simp add: xor_bytes_def)

lemma xor_bytes_cancel: "length a \<le> length s \<Longrightarrow> xor_bytes (xor_bytes a s) s = a"
proof (induction a arbitrary: s)
  case Nil
  then show ?case by (simp add: xor_bytes_def)
next
  case (Cons x a)
  then obtain y t where s: "s = y # t" by (cases s) auto
  with Cons have "xor_bytes (xor_bytes a t) t = a" by simp
  then show ?case using s by (simp add: xor_bytes_def xor.assoc)
qed

lemma chunks_Nil [simp]: "chunks n [] = []"
  by (simp add: chunks.simps)

lemma concat_chunks: "0 < n \<Longrightarrow> concat (chunks n data) = data"
proof (induction n data rule: chunks.induct)
  case (1 n data)
  then show ?case by (cases "data = []") (simp_all add: chunks.simps [of n data])
qed

lemma chunks_short: "0 < n \<Longrightarrow> data \<noteq> [] \<Longrightarrow> length data \<le> n \<Longrightarrow> chunks n data = [data]"
  by (simp add: chunks.simps [of n data])

lemma length_pkcs7_pad: "length (pkcs7_pad data) = length data + (16 - length data mod 16)"
  by (simp add: pkcs7_pad_def Let_def)

lemma pkcs7_pad_blocks: "length (pkcs7_pad data) mod 16 = 0"
  unfolding length_pkcs7_pad by presburger

lemma pkcs7_pad_nonempty: "pkcs7_pad data \<noteq> []"
  by (simp add: pkcs7_pad_def Let_def)

lemma unat_pad_byte: "0 < n \<Longrightarrow> n \<le> 16 \<Longrightarrow> unat (of_nat n :: byte) = n"
  by (simp add: unat_of_nat)

lemma pkcs7_unpad_pad: "pkcs7_unpad (pkcs7_pad data) = Inr data"
proof -
  define n where "n = 16 - length data mod 16"
  have n: "0 < n" "n \<le> 16" by (simp_all add: n_def)
  have p: "pkcs7_pad data = data @ replicate n (of_nat n)" by (simp add: pkcs7_pad_def n_def)
  have l: "last (pkcs7_pad data) = (of_nat n :: byte)" using n by (simp add: p)
  have u: "unat (of_nat n :: byte) = n" using n by (rule unat_pad_byte)
  have m: "length (data @ replicate n (of_nat n :: byte)) mod 16 = 0"
    using pkcs7_pad_blocks [of data] by (simp add: p)
  show ?thesis
    unfolding pkcs7_unpad_def l u Let_def using n m by (simp add: p)
qed

lemma block_prim_okD:
  "block_prim_ok A \<Longrightarrow> length b = 16 \<Longrightarrow>
   length (blk_enc A k b) = 16 \<and> length (blk_dec A k b) = 16 \<and> blk_dec A k (blk_enc A k b) = b"
  by (simp add: block_prim_ok_def)

lemma whole_blocks_ge: "data \<noteq> [] \<Longrightarrow> length data mod 16 = 0 \<Longrightarrow> 16 \<le> length data"
  by (cases "length data < 16") auto

lemma whole_blocks_drop: "length data mod 16 = 0 \<Longrightarrow> length (drop 16 data) mod 16 = 0"
  by (simp add: mod_eq_0_iff_dvd dvd_minus_self) 

lemma cbc_encrypt_Nil [simp]: "cbc_encrypt A k prev [] = []"
  by (simp add: cbc_encrypt.simps)

lemma cbc_decrypt_Nil [simp]: "cbc_decrypt A k prev [] = []"
  by (simp add: cbc_decrypt.simps)

lemma cbc_encrypt_step:
  "data \<noteq> [] \<Longrightarrow> cbc_encrypt A k prev data =
     blk_enc A k (xor_bytes (take 16 data) prev)
       @ cbc_encrypt A k (blk_enc A k (xor_bytes (take 16 data) prev)) (drop 16 data)"
  by (simp add: cbc_encrypt.simps [of A k prev data] Let_def)

lemma cbc_decrypt_step:
  "data \<noteq> [] \<Longrightarrow> cbc_decrypt A k prev data =
     xor_bytes (blk_dec A k (take 16 data)) prev @ cbc_decrypt A k (take 16 data) (drop 16 data)"
  by (simp add: cbc_decrypt.simps [of A k prev data] Let_def)

lemma length_cbc_encrypt:
  "block_prim_ok A \<Longrightarrow> length prev = 16 \<Longrightarrow> length data mod 16 = 0 \<Longrightarrow>
   length (cbc_encrypt A k prev data) = length data"
proof (induction A k prev data rule: cbc_encrypt.induct)
  case (1 A k prev data)
  show ?case
  proof (cases "data = []")
    case True
    then show ?thesis by simp
  next
    case False
    have ge: "16 \<le> length data" using False "1.prems"(3) by (rule whole_blocks_ge)
    define c where "c = blk_enc A k (xor_bytes (take 16 data) prev)"
    have lc: "length c = 16"
      unfolding c_def using block_prim_okD [OF "1.prems"(1)] ge "1.prems"(2) by simp
    have "length (cbc_encrypt A k c (drop 16 data)) = length (drop 16 data)"
      using "1.IH" [OF False c_def "1.prems"(1) lc whole_blocks_drop [OF "1.prems"(3)]] .
    then show ?thesis
      using ge lc by (simp add: cbc_encrypt_step [OF False] c_def [symmetric])
  qed
qed

lemma cbc_roundtrip:
  "block_prim_ok A \<Longrightarrow> length prev = 16 \<Longrightarrow> length data mod 16 = 0 \<Longrightarrow>
   cbc_decrypt A k prev (cbc_encrypt A k prev data) = data"
proof (induction A k prev data rule: cbc_encrypt.induct)
  case (1 A k prev data)
  show ?case
  proof (cases "data = []")
    case True
    then show ?thesis by simp
  next
    case False
    have ge: "16 \<le> length data" using False "1.prems"(3) by (rule whole_blocks_ge)
    define x where "x = xor_bytes (take 16 data) prev"
    define c where "c = blk_enc A k x"
    have lx: "length x = 16" unfolding x_def using ge "1.prems"(2) by simp
    have lc: "length c = 16" and dc: "blk_dec A k c = x"
      unfolding c_def using block_prim_okD [OF "1.prems"(1) lx] by simp_all
    have ih: "cbc_decrypt A k c (cbc_encrypt A k c (drop 16 data)) = drop 16 data"
      using "1.IH" [OF False c_def [unfolded x_def] "1.prems"(1) lc whole_blocks_drop [OF "1.prems"(3)]] .
    have e: "cbc_encrypt A k prev data = c @ cbc_encrypt A k c (drop 16 data)"
      by (simp add: cbc_encrypt_step [OF False] c_def x_def)
    have ne: "c @ cbc_encrypt A k c (drop 16 data) \<noteq> []" using lc by auto
    have xb: "xor_bytes x prev = take 16 data"
      unfolding x_def using ge "1.prems"(2) by (simp add: xor_bytes_cancel)
    show ?thesis
      unfolding e cbc_decrypt_step [OF ne] using lc ih dc xb by simp
  qed
qed

lemma cfb_encrypt_Nil [simp]: "cfb_encrypt A k prev [] = []"
  by (simp add: cfb_encrypt.simps)

lemma cfb_decrypt_Nil [simp]: "cfb_decrypt A k prev [] = []"
  by (simp add: cfb_decrypt.simps)




lemma ofb_crypt_Nil [simp]: "ofb_crypt A k prev [] = []"
  by (simp add: ofb_crypt.simps)



lemma length_inc_le [simp]: "length (inc_le bs) = length bs"
  by (induction bs) auto

lemma length_inc_be [simp]: "length (inc_be ctr) = length ctr"
  by (simp add: inc_be_def)

lemma ctr_crypt_Nil [simp]: "ctr_crypt A k ctr [] = []"
  by (simp add: ctr_crypt.simps)



text \<open>AES data round trip\<close>

lemma AES_encrypt_data_CBC:
  "length key * 8 = key_size \<Longrightarrow> key_size \<in> {128, 192, 256} \<Longrightarrow>
   kw_iv kw = Some iv \<Longrightarrow> length iv = 16 \<Longrightarrow>
   AES_encrypt_data A key_size ''CBC'' data key kw = Inr (cbc_encrypt A key iv (pkcs7_pad data))"
  by (auto simp: AES_encrypt_data_def get_cipher_def Cipher_new_def pkcs7_pad_blocks)

lemma AES_decrypt_data_CBC:
  "length key * 8 = key_size \<Longrightarrow> key_size \<in> {128, 192, 256} \<Longrightarrow>
   kw_iv kw = Some iv \<Longrightarrow> length iv = 16 \<Longrightarrow>
   AES_decrypt_data A key_size ''CBC'' data key kw =
     (if length data mod 16 \<noteq> 0
      then Inl (ValueError ''The length of the provided data is not a multiple of the block length.'')
      else pkcs7_unpad (cbc_decrypt A key iv data))"
  by (auto simp: AES_decrypt_data_def get_cipher_def Cipher_new_def)


section \<open>The small instances meet the contracts\<close>

lemma toy_block_ok: "block_prim_ok toy_block"
  by (simp add: block_prim_ok_def toy_block_def xor_bytes_cancel)

lemma toy_rsa_keypair_ok: "rsa_keypair_ok toy_rsa n (n div 8) (n div 8)"
  unfolding rsa_keypair_ok_def
proof (intro allI impI)
  fix tape :: entropy and m :: bytes
  assume le: "length m + 66 \<le> n div 8"
  define k where "k = n div 8 - 1 - length m"
  have d: "dropWhile (\<lambda>x. x = 0) (replicate k (0 :: byte) @ 1 # rev m) = 1 # rev m"
    by (induction k) simp_all
  show "\<exists>c. rsa_oaep_encrypt toy_rsa (n div 8) tape m = Inr c \<and> length c = n div 8
           \<and> rsa_oaep_decrypt toy_rsa (n div 8) c = Inr m"
    using le d by (simp add: toy_rsa_def k_def [symmetric]) (simp add: k_def)
qed



section \<open>Properties of the key store\<close>

lemma length_sanitize_key_name [simp]: "length (sanitize_key_name n) = length n"
  by (simp add: sanitize_key_name_def replace_char_def)

lemma hd_sanitize_key_name: "n \<noteq> [] \<Longrightarrow> hd (sanitize_key_name n) \<noteq> CHR ''/''"
  by (cases n) (simp_all add: sanitize_key_name_def replace_char_def)

lemma sanitize_key_name_Nil_iff [simp]: "sanitize_key_name n = [] \<longleftrightarrow> n = []"
  by (simp add: sanitize_key_name_def replace_char_def)

lemma key_file_of_sanitize_neq:
  assumes "sanitize_key_name n \<noteq> n"
  shows "key_file_of km (sanitize_key_name n) \<noteq> key_file_of km n"
proof
  assume eq: "key_file_of km (sanitize_key_name n) = key_file_of km n"
  have ne: "n \<noteq> []" using assms by auto
  define a where "a = storage_dir km"
  define s where "s = sanitize_key_name n"
  have ls: "length s = length n" by (simp add: s_def)
  have sne: "s \<noteq> []" using ne by (simp add: s_def)
  have hs: "hd s \<noteq> CHR ''/''" unfolding s_def using ne by (rule hd_sanitize_key_name)
  have hs': "hd (s @ ''.key'') \<noteq> CHR ''/''" using hs sne by simp
  have e: "os_path_join a (s @ ''.key'') = os_path_join a (n @ ''.key'')"
    using eq by (simp add: key_file_of_def a_def s_def)
  show False
  proof (cases "hd (n @ ''.key'') = CHR ''/''")
    case True
    then have r: "os_path_join a (n @ ''.key'') = n @ ''.key''"
      by (simp add: os_path_join_def)
    have "length (os_path_join a (s @ ''.key'')) = length (n @ ''.key'')"
      using e r by simp
    then have "a = []"
      using hs' ls by (auto simp: os_path_join_def split: if_splits)
    then have "s @ ''.key'' = n @ ''.key''"
      using e r hs' by (simp add: os_path_join_def)
    then show False using assms by (simp add: s_def)
  next
    case False
    then have "s @ ''.key'' = n @ ''.key''"
      using e hs' by (auto simp: os_path_join_def split: if_splits)
    then show False using assms by (simp add: s_def)
  qed
qed

lemma save_key_file:
  assumes "save_key K km tape time now fs key_data key_name password = Inr (key_file, fs')"
  shows "key_file = key_file_of km (sanitize_key_name key_name)
         \<and> (\<exists>content. fs' = fs(key_file \<mapsto> content))"
  using assms
  by (auto simp: save_key_def Let_def split: sum.splits if_splits prod.splits)

lemma load_key_missing: "fs (key_file_of km key_name) = None \<Longrightarrow> load_key K km fs key_name password = None"
  by (simp add: load_key_def)




text \<open>
  Claim C8.  \<open>save_key\<close> writes the file of the sanitised name, whereas \<open>load_key\<close> and
  \<open>delete_key\<close> look for the file of the name as given.  So after a key is saved under a
  name that sanitising changes (one with a space, a slash or a backslash), in a store
  that has no file of the unsanitised name, the saved file is there but loading by the
  original name returns \<open>None\<close> and deleting by it returns \<open>False\<close>.
\<close>

theorem C8_load_delete_use_unsanitized_name:
  assumes "sanitize_key_name key_name \<noteq> key_name"
    and "fs (key_file_of km key_name) = None"
    and "save_key K km tape time now fs key_data key_name password = Inr (key_file, fs')"
  shows "key_file = key_file_of km (sanitize_key_name key_name)
         \<and> fs' key_file \<noteq> None
         \<and> load_key K km fs' key_name password = None
         \<and> delete_key km fs' key_name = (False, fs')"
proof -
  from save_key_file [OF assms(3)] obtain content
    where kf: "key_file = key_file_of km (sanitize_key_name key_name)"
      and fs': "fs' = fs(key_file \<mapsto> content)" by auto
  have ne: "key_file \<noteq> key_file_of km key_name"
    unfolding kf using assms(1) by (rule key_file_of_sanitize_neq)
  have miss: "fs' (key_file_of km key_name) = None"
    using ne assms(2) by (simp add: fs')
  show ?thesis
    using kf miss by (simp add: fs' load_key_missing delete_key_def)
qed

theorem C8_load_delete_use_unsanitized_name_witness:
  "\<exists>fs'. save_key toy_key_prim \<lparr>storage_dir = ''keys''\<rparr> (\<lambda>_. 0) 0 ''2024-01-01T00:00:00''
            Map.empty [(''key'', Bytes [1, 2, 3])] ''my key'' None
          = Inr (''keys/my_key.key'', fs')
        \<and> fs' ''keys/my_key.key'' \<noteq> None
        \<and> load_key toy_key_prim \<lparr>storage_dir = ''keys''\<rparr> fs' ''my key'' None = None
        \<and> delete_key \<lparr>storage_dir = ''keys''\<rparr> fs' ''my key'' = (False, fs')"
proof -
  have s: "sanitize_key_name ''my key'' = ''my_key''"
    by (simp add: sanitize_key_name_def replace_char_def)
  have kf: "key_file_of \<lparr>storage_dir = ''keys''\<rparr> ''my_key'' = ''keys/my_key.key''"
    by (simp add: key_file_of_def os_path_join_def)
  obtain fs' where sv: "save_key toy_key_prim \<lparr>storage_dir = ''keys''\<rparr> (\<lambda>_. 0) 0 ''2024-01-01T00:00:00''
            Map.empty [(''key'', Bytes [1, 2, 3])] ''my key'' None
          = Inr (''keys/my_key.key'', fs')"
    by (simp add: save_key_def s kf save_data_of_def dict_get_default_def dict_get_def truthy_def Let_def)
  show ?thesis
    using C8_load_delete_use_unsanitized_name [OF _ _ sv] sv by (simp add: s kf)
qed

lemma urandom_const: "urandom n (\<lambda>_. c) = (replicate n c, \<lambda>_. c)"
  by (simp add: urandom_def map_replicate_const)

lemma length_fst_urandom [simp]: "length (fst (urandom n tape)) = n"
  by (simp add: urandom_def)

lemma length_ENCRYPTED_marker [simp]: "length ENCRYPTED_marker = 10"
  by (simp add: ENCRYPTED_marker_def encode_utf8_def)

lemma startswith_append [simp]: "startswith (p @ s) p"
  by (simp add: startswith_def)

lemma save_key_with_password:
  assumes "save_key K km tape time now fs key_data key_name (Some pw) = Inr (key_file, fs')"
    and "pw \<noteq> []"
  shows "\<exists>sd. to_json (save_data_of K key_data (sanitize_key_name key_name) now) = Inr sd
           \<and> key_file = key_file_of km (sanitize_key_name key_name)
           \<and> fs' = fs(key_file \<mapsto> ENCRYPTED_marker @ fst (urandom 16 tape)
                      @ fernet_encrypt K (derive_key_from_password K pw (fst (urandom 16 tape))) time
                          (fst (urandom 16 (snd (urandom 16 tape)))) (json_dumps K None sd))"
  using assms
  by (auto simp: save_key_def Let_def truthy_def split: sum.splits prod.splits)

text \<open>
  Claim C5.  \<open>load_key\<close> has no exception for a wrong password.  For a key saved with a
  password, loading it by the same name with a password under which Fernet rejects the
  stored token (as it does for every password but the saved one, short of a forgery)
  returns \<open>None\<close>, the value that \<open>load_key\<close> also returns for a missing file and for a
  missing password; no exception is raised and no key material is returned.
\<close>

theorem C5_wrong_password_returns_None:
  assumes "sanitize_key_name key_name = key_name"
    and "pw \<noteq> []"
    and "save_key K km tape time now fs key_data key_name (Some pw) = Inr (key_file, fs')"
    and "\<forall>salt token. fs' key_file = Some (ENCRYPTED_marker @ salt @ token) \<and> length salt = 16
           \<longrightarrow> (\<exists>e. fernet_decrypt K (derive_key_from_password K wrong salt) token = Inl e)"
  shows "load_key K km fs' key_name (Some wrong) = None \<and> load_key K km fs' key_name None = None"
proof -
  define salt where "salt = fst (urandom 16 tape)"
  from save_key_with_password [OF assms(3) assms(2)] obtain sd token
    where kf: "key_file = key_file_of km key_name"
      and fs': "fs' = fs(key_file \<mapsto> ENCRYPTED_marker @ salt @ token)"
    unfolding salt_def assms(1) by blast
  have c: "fs' (key_file_of km key_name) = Some (ENCRYPTED_marker @ salt @ token)"
    by (simp add: fs' kf)
  have ls: "length salt = 16" by (simp add: salt_def)
  from assms(4) c ls obtain e
    where "fernet_decrypt K (derive_key_from_password K wrong salt) token = Inl e"
    unfolding kf by blast
  then have "load_key K km fs' key_name (Some wrong) = None"
    using c ls by (simp add: load_key_def Let_def)
  moreover have "load_key K km fs' key_name None = None"
    using c by (simp add: load_key_def Let_def truthy_def)
  ultimately show ?thesis by simp
qed

lemma toy_derive_key:
  "derive_key_from_password toy_key_prim pw salt = take 32 (encode_utf8 pw @ salt @ replicate 32 0)"
  by (simp add: derive_key_from_password_def toy_key_prim_def)

lemma toy_fernet_rejects:
  "length k = length k' \<Longrightarrow> k \<noteq> k' \<Longrightarrow>
   fernet_decrypt toy_key_prim k' (fernet_encrypt toy_key_prim k t iv d) = Inl InvalidToken"
  by (simp add: toy_key_prim_def)

lemma toy_save_key_password:
  "pw \<noteq> [] \<Longrightarrow>
   save_key toy_key_prim \<lparr>storage_dir = ''keys''\<rparr> (\<lambda>_. 0) 0 now Map.empty
       [(''key'', Bytes b)] ''k1'' (Some pw)
     = Inr (''keys/k1.key'',
            [''keys/k1.key'' \<mapsto> ENCRYPTED_marker @ replicate 16 0
               @ fernet_encrypt toy_key_prim (derive_key_from_password toy_key_prim pw (replicate 16 0)) 0
                   (replicate 16 0)
                   (json_dumps toy_key_prim None
                      [(''name'', JStr ''k1''), (''algorithm'', JStr ''unknown''),
                       (''created_at'', JStr now),
                       (''key'', JStr (b64encode toy_key_prim b))])])"
  by (simp add: save_key_def save_data_of_def dict_get_default_def dict_get_def truthy_def Let_def
        urandom_const sanitize_key_name_def replace_char_def key_file_of_def os_path_join_def)

theorem C5_wrong_password_returns_None_witness:
  "\<exists>fs'. save_key toy_key_prim \<lparr>storage_dir = ''keys''\<rparr> (\<lambda>_. 0) 0 ''2024-01-01T00:00:00''
             Map.empty [(''key'', Bytes [1, 2, 3])] ''k1'' (Some ''right'')
           = Inr (''keys/k1.key'', fs')
         \<and> load_key toy_key_prim \<lparr>storage_dir = ''keys''\<rparr> fs' ''k1'' (Some ''wrong'') = None
         \<and> load_key toy_key_prim \<lparr>storage_dir = ''keys''\<rparr> fs' ''k1'' None = None"
proof -
  let ?km = "\<lparr>storage_dir = ''keys''\<rparr>"
  obtain fs' where sv: "save_key toy_key_prim ?km (\<lambda>_. 0) 0 ''2024-01-01T00:00:00''
             Map.empty [(''key'', Bytes [1, 2, 3])] ''k1'' (Some ''right'')
           = Inr (''keys/k1.key'', fs')"
    and fs': "fs' = [''keys/k1.key'' \<mapsto> ENCRYPTED_marker @ replicate 16 0
               @ fernet_encrypt toy_key_prim (derive_key_from_password toy_key_prim ''right'' (replicate 16 0)) 0
                   (replicate 16 0)
                   (json_dumps toy_key_prim None
                      [(''name'', JStr ''k1''), (''algorithm'', JStr ''unknown''),
                       (''created_at'', JStr ''2024-01-01T00:00:00''),
                       (''key'', JStr (b64encode toy_key_prim [1, 2, 3]))])]"
    using toy_save_key_password [of "''right''"] by simp
  have san: "sanitize_key_name ''k1'' = ''k1''"
    by (simp add: sanitize_key_name_def replace_char_def)
  have ne: "derive_key_from_password toy_key_prim ''right'' (replicate 16 0)
              \<noteq> derive_key_from_password toy_key_prim ''wrong'' (replicate 16 0)"
    by (simp add: toy_derive_key encode_utf8_def)
  have len: "length (derive_key_from_password toy_key_prim ''right'' (replicate 16 0))
              = length (derive_key_from_password toy_key_prim ''wrong'' (replicate 16 0))"
    by (simp add: toy_derive_key encode_utf8_def)
  have rej: "\<forall>salt token. fs' ''keys/k1.key'' = Some (ENCRYPTED_marker @ salt @ token) \<and> length salt = 16
           \<longrightarrow> (\<exists>e. fernet_decrypt toy_key_prim (derive_key_from_password toy_key_prim ''wrong'' salt) token = Inl e)"
    using toy_fernet_rejects [OF len ne] by (auto simp: fs')
  from C5_wrong_password_returns_None [OF san _ sv rej] sv show ?thesis by auto
qed

theorem C5_wrong_password_no_exception:
  "load_key toy_key_prim \<lparr>storage_dir = ''keys''\<rparr>
     [''keys/k1.key'' \<mapsto> ENCRYPTED_marker @ replicate 16 0
        @ fernet_encrypt toy_key_prim
            (derive_key_from_password toy_key_prim ''s3cret'' (replicate 16 0)) 0 (replicate 16 0)
            (json_dumps toy_key_prim None [(''name'', JStr ''k1'')])]
     ''k1'' (Some ''guess'') = None"
proof -
  have ne: "derive_key_from_password toy_key_prim ''s3cret'' (replicate 16 0)
              \<noteq> derive_key_from_password toy_key_prim ''guess'' (replicate 16 0)"
    by (simp add: toy_derive_key encode_utf8_def)
  have len: "length (derive_key_from_password toy_key_prim ''s3cret'' (replicate 16 0))
              = length (derive_key_from_password toy_key_prim ''guess'' (replicate 16 0))"
    by (simp add: toy_derive_key encode_utf8_def)
  show ?thesis
    using toy_fernet_rejects [OF len ne]
    by (simp add: load_key_def Let_def key_file_of_def os_path_join_def)
qed

section \<open>Properties of the chunked file functions\<close>

lemma process_chunks_all_ok:
  "(\<And>ch. ch \<in> set cs \<Longrightarrow> f ch = Inr (g ch)) \<Longrightarrow>
   process_chunks f cs written = (True, written @ concat (map g cs))"
  by (induction cs arbitrary: written) simp_all

lemma process_chunks_first_fails:
  "f ch = Inl e \<Longrightarrow> process_chunks f (ch # rest) written = (False, written)"
  by simp

lemma AES_encrypt_file_CBC:
  assumes "key_size \<in> {128, 192, 256}" and "length key * 8 = key_size"
    and "kw_iv kw = Some iv" and "length iv = 16"
    and "fs input_file = Some data" and "input_file \<noteq> output_file"
  shows "AES_encrypt_file A key_size ''CBC'' fs input_file output_file key chunk_size kw =
           (True, fs(output_file \<mapsto>
              concat (map (\<lambda>chunk. cbc_encrypt A key iv (pkcs7_pad chunk)) (chunks chunk_size data))))"
proof -
  have e: "\<And>ch. AES_encrypt_data A key_size ''CBC'' ch key kw = Inr (cbc_encrypt A key iv (pkcs7_pad ch))"
    using assms(1-4) by (simp add: AES_encrypt_data_CBC)
  have p: "process_chunks (\<lambda>chunk. AES_encrypt_data A key_size ''CBC'' chunk key kw)
             (chunks chunk_size data) [] =
           (True, [] @ concat (map (\<lambda>chunk. cbc_encrypt A key iv (pkcs7_pad chunk)) (chunks chunk_size data)))"
    by (rule process_chunks_all_ok) (rule e)
  show ?thesis
    using assms(5,6) p by (simp add: AES_encrypt_file_def CryptoBase_encrypt_file_def)
qed

lemma chunks_step:
  "0 < n \<Longrightarrow> data \<noteq> [] \<Longrightarrow> chunks n data = take n data # chunks n (drop n data)"
  by (simp add: chunks.simps [of n data])

lemma length_AES_CBC_chunk:
  "block_prim_ok A \<Longrightarrow> length iv = 16 \<Longrightarrow>
   length (cbc_encrypt A key iv (pkcs7_pad chunk)) = length chunk + (16 - length chunk mod 16)"
  using length_cbc_encrypt [of A iv "pkcs7_pad chunk" key, OF _ _ pkcs7_pad_blocks]
  by (simp add: length_pkcs7_pad)




section \<open>Properties of the RSA container\<close>

lemma be32_recompose:
  fixes n :: nat
  shows "((n div 16777216 * 256 + n div 65536 mod 256) * 256 + n div 256 mod 256) * 256 + n mod 256 = n"
proof -
  have 1: "n div 256 div 256 = n div 65536" by (simp add: div_mult2_eq [symmetric])
  have 2: "n div 65536 div 256 = n div 16777216" by (simp add: div_mult2_eq [symmetric])
  have x: "n div 16777216 * 256 + n div 65536 mod 256 = n div 65536"
    using div_mult_mod_eq [of "n div 65536" 256] unfolding 2 .
  have y: "n div 65536 * 256 + n div 256 mod 256 = n div 256"
    using div_mult_mod_eq [of "n div 256" 256] unfolding 1 .
  have z: "n div 256 * 256 + n mod 256 = n"
    by (rule div_mult_mod_eq)
  show ?thesis unfolding x y z ..
qed

lemma to_bytes4_be_Inr:
  assumes "to_bytes4_be n = Inr bs"
  shows "length bs = 4 \<and> from_bytes_be bs = n"
proof -
  have n: "n < 4294967296" using assms by (simp add: to_bytes4_be_def split: if_splits)
  then have n24: "n div 16777216 < 256" by (simp add: less_mult_imp_div_less)
  have a: "unat (of_nat (n div 16777216) :: byte) = n div 16777216"
    using n24 by (simp add: unat_of_nat)
  have b: "unat (of_nat (n div 65536 mod 256) :: byte) = n div 65536 mod 256"
    by (simp add: unat_of_nat)
  have c: "unat (of_nat (n div 256 mod 256) :: byte) = n div 256 mod 256"
    by (simp add: unat_of_nat)
  have d: "unat (of_nat (n mod 256) :: byte) = n mod 256"
    by (simp add: unat_of_nat)
  have bs: "bs = [of_nat (n div 16777216), of_nat (n div 65536 mod 256),
                  of_nat (n div 256 mod 256), of_nat (n mod 256)]"
    using assms n by (simp add: to_bytes4_be_def)
  have "from_bytes_be bs =
          ((n div 16777216 * 256 + n div 65536 mod 256) * 256 + n div 256 mod 256) * 256 + n mod 256"
    unfolding bs from_bytes_be_def by (simp only: foldl.simps a b c d) simp
  then show ?thesis
    unfolding be32_recompose by (simp add: bs)
qed

lemma to_bytes4_be_ok: "n < 2 ^ 32 \<Longrightarrow> \<exists>bs. to_bytes4_be n = Inr bs"
  by (simp add: to_bytes4_be_def)

lemma AES_generate_key_lengths:
  "AES_generate_key key_size tape = ((key, iv), tape1) \<Longrightarrow>
   length key = key_size div 8 \<and> length iv = 16"
  by (auto simp: AES_generate_key_def urandom_def Let_def)

lemma temp_neq [simp]: "f \<noteq> f @ ''.temp''" "f @ ''.temp'' \<noteq> f"
  by simp_all

lemma RSA_decrypt_file_container:
  fixes R :: "('pk, 'sk) rsa_prim"
  assumes "kw_private_key kw = Some sk"
    and "fs input_file = Some (prefix @ wrapped @ stream)"
    and "length prefix = 4" and "from_bytes_be prefix = length wrapped"
    and "rsa_oaep_decrypt R sk wrapped = Inr (aes_key @ aes_iv)"
    and "length aes_key = 32" and "length aes_iv = 16"
  shows "RSA_decrypt_file R A fs input_file output_file key chunk_size kw =
           Inr (True, remove_if_exists (input_file @ ''.temp'')
                  (snd (AES_decrypt_file A 256 ''CBC''
                          (fs(input_file @ ''.temp'' \<mapsto> concat (chunks chunk_size stream)))
                          (input_file @ ''.temp'') output_file aes_key chunk_size
                          ((no_kwargs :: ('pk, 'sk) kwargs)\<lparr>kw_iv := Some aes_iv\<rparr>))))"
  using assms
  by (simp add: RSA_decrypt_file_def resolve_private_key_def Let_def AESCipher_init_def
        case_prod_beta)

lemma RSA_encrypt_file_ok:
  fixes R :: "('pk, 'sk) rsa_prim"
  assumes "kw_public_key kw = Some pk"
    and "AES_generate_key 256 tape = ((aes_key, aes_iv), tape1)"
    and "rsa_oaep_encrypt R pk tape1 (aes_key @ aes_iv) = Inr wrapped"
    and "to_bytes4_be (length wrapped) = Inr prefix"
    and "fs input_file = Some data" and "input_file \<noteq> output_file @ ''.temp''"
  shows "RSA_encrypt_file R A tape fs input_file output_file key chunk_size kw =
           Inr (True, (fs(output_file \<mapsto> prefix @ wrapped @ concat (chunks chunk_size
                  (concat (map (\<lambda>chunk. cbc_encrypt A aes_key aes_iv (pkcs7_pad chunk))
                     (chunks chunk_size data))))))
                 (output_file @ ''.temp'' := None))"
proof -
  have l: "length aes_key * 8 = 256" "length aes_iv = 16"
    using AES_generate_key_lengths [OF assms(2)] by simp_all
  have ae: "AES_encrypt_file A 256 ''CBC'' fs input_file (output_file @ ''.temp'') aes_key chunk_size
              ((no_kwargs :: ('pk, 'sk) kwargs)\<lparr>kw_iv := Some aes_iv\<rparr>) =
            (True, fs(output_file @ ''.temp'' \<mapsto>
               concat (map (\<lambda>chunk. cbc_encrypt A aes_key aes_iv (pkcs7_pad chunk))
                 (chunks chunk_size data))))"
    by (rule AES_encrypt_file_CBC) (simp_all add: l assms(5,6))
  show ?thesis
    using assms(1,3,4)
    by (simp add: RSA_encrypt_file_def resolve_public_key_def Let_def assms(2) ae
          remove_if_exists_def fun_upd_twist)
qed





section \<open>The RSA file round trip at the chunk boundary\<close>

lemma cbc_encrypt_append:
  "block_prim_ok A \<Longrightarrow> length prev = 16 \<Longrightarrow> length x mod 16 = 0 \<Longrightarrow>
   \<exists>prev'. length prev' = 16 \<and>
     cbc_encrypt A k prev (x @ y) = cbc_encrypt A k prev x @ cbc_encrypt A k prev' y"
proof (induction A k prev x rule: cbc_encrypt.induct)
  case (1 A k prev x)
  show ?case
  proof (cases "x = []")
    case True
    then show ?thesis using "1.prems"(2) by auto
  next
    case False
    have ge: "16 \<le> length x" using False "1.prems"(3) by (rule whole_blocks_ge)
    define c where "c = blk_enc A k (xor_bytes (take 16 x) prev)"
    have lc: "length c = 16"
      unfolding c_def using block_prim_okD [OF "1.prems"(1)] ge "1.prems"(2) by simp
    from "1.IH" [OF False c_def "1.prems"(1) lc whole_blocks_drop [OF "1.prems"(3)]]
    obtain prev' where p: "length prev' = 16"
      and e: "cbc_encrypt A k c (drop 16 x @ y) = cbc_encrypt A k c (drop 16 x) @ cbc_encrypt A k prev' y"
      by blast
    have ne: "x @ y \<noteq> []" using False by simp
    have t: "take 16 (x @ y) = take 16 x" "drop 16 (x @ y) = drop 16 x @ y" using ge by simp_all
    have "cbc_encrypt A k prev (x @ y) = cbc_encrypt A k prev x @ cbc_encrypt A k prev' y"
      unfolding cbc_encrypt_step [OF ne] cbc_encrypt_step [OF False] t c_def [symmetric] e by simp
    with p show ?thesis by blast
  qed
qed

lemma take_cbc_encrypt_append:
  assumes "block_prim_ok A" and "length prev = 16" and "length x mod 16 = 0"
  shows "take (length x) (cbc_encrypt A k prev (x @ y)) = cbc_encrypt A k prev x"
proof -
  from cbc_encrypt_append [OF assms] obtain prev'
    where "cbc_encrypt A k prev (x @ y) = cbc_encrypt A k prev x @ cbc_encrypt A k prev' y" by blast
  then show ?thesis using length_cbc_encrypt [OF assms] by simp
qed

lemma pkcs7_pad_whole: "length c mod 16 = 0 \<Longrightarrow> pkcs7_pad c = c @ replicate 16 16"
  by (simp add: pkcs7_pad_def)

lemma AES_decrypt_file_CBC_first_chunk_fails:
  assumes ok: "block_prim_ok A"
    and ks: "key_size \<in> {128, 192, 256}" and key: "length key * 8 = key_size"
    and iv: "kw_iv kw = Some iv" "length iv = 16"
    and inp: "fs input_file = Some (cbc_encrypt A key iv (pkcs7_pad chunk) @ rest)"
    and chunk: "length chunk = chunk_size" "0 < chunk_size" "chunk_size mod 16 = 0"
    and bad: "pkcs7_unpad chunk = Inl e"
    and ne: "input_file \<noteq> output_file"
  shows "AES_decrypt_file A key_size ''CBC'' fs input_file output_file key chunk_size kw =
           (False, fs(output_file \<mapsto> []))"
proof -
  define stream where "stream = cbc_encrypt A key iv (pkcs7_pad chunk) @ rest"
  have m: "length chunk mod 16 = 0" using chunk by simp
  have le: "length (cbc_encrypt A key iv (pkcs7_pad chunk)) = chunk_size + 16"
    using length_AES_CBC_chunk [OF ok iv(2), where chunk = chunk and key = key] chunk m by simp
  have sne: "stream \<noteq> []" using le by (auto simp: stream_def)
  have t: "take chunk_size stream = cbc_encrypt A key iv chunk"
    using take_cbc_encrypt_append [OF ok iv(2) m, where k = key and y = "replicate 16 16"] le chunk
    by (simp add: stream_def pkcs7_pad_whole [OF m])
  have lt: "length (cbc_encrypt A key iv chunk) mod 16 = 0"
    using length_cbc_encrypt [OF ok iv(2) m] m by simp
  have d: "AES_decrypt_data A key_size ''CBC'' (take chunk_size stream) key kw = Inl e"
    using ks key iv lt bad cbc_roundtrip [OF ok iv(2) m]
    by (simp add: AES_decrypt_data_CBC t)
  have ch: "chunks chunk_size stream = take chunk_size stream # chunks chunk_size (drop chunk_size stream)"
    using chunk(2) sne by (rule chunks_step)
  show ?thesis
    using inp ne d
    by (simp add: AES_decrypt_file_def CryptoBase_decrypt_file_def stream_def [symmetric] ch)
qed

text \<open>
  Below the chunk size the container round trip restores the file: the one padded chunk is
  at most 4096 bytes long and is read back as one chunk.
\<close>

lemma padded_fits_chunk:
  fixes n :: nat
  assumes "n < 4096"
  shows "n + (16 - n mod 16) \<le> 4096"
  using assms by presburger

lemma AES_decrypt_file_CBC_single_chunk:
  assumes ok: "block_prim_ok A"
    and ks: "key_size \<in> {128, 192, 256}" and key: "length key * 8 = key_size"
    and iv: "kw_iv kw = Some iv" "length iv = 16"
    and inp: "fs input_file = Some (cbc_encrypt A key iv (pkcs7_pad data))"
    and le: "length data < 4096"
    and ne: "input_file \<noteq> output_file"
  shows "AES_decrypt_file A key_size ''CBC'' fs input_file output_file key 4096 kw =
           (True, fs(output_file \<mapsto> data))"
proof -
  define stream where "stream = cbc_encrypt A key iv (pkcs7_pad data)"
  have ls: "length stream = length data + (16 - length data mod 16)"
    unfolding stream_def using ok iv(2) by (rule length_AES_CBC_chunk)
  have sne: "stream \<noteq> []" using ls by auto
  have sle: "length stream \<le> 4096" unfolding ls using le by (rule padded_fits_chunk)
  have ch: "chunks 4096 stream = [stream]" using sne sle by (simp add: chunks_short)
  have m: "length stream mod 16 = 0"
    using ls pkcs7_pad_blocks [of data] by (simp add: length_pkcs7_pad)
  have d: "AES_decrypt_data A key_size ''CBC'' stream key kw = Inr data"
    using ks key iv m cbc_roundtrip [OF ok iv(2) pkcs7_pad_blocks]
    by (simp add: AES_decrypt_data_CBC stream_def pkcs7_unpad_pad)
  show ?thesis
    using inp ne d
    by (simp add: AES_decrypt_file_def CryptoBase_decrypt_file_def stream_def [symmetric] ch)
qed

lemma RSA_file_roundtrip_below_chunk_size:
  fixes R :: "('pk, 'sk) rsa_prim"
  assumes ok: "block_prim_ok A"
    and kp: "rsa_keypair_ok R key_size sk pk" and ks: "key_size \<in> {1024, 2048, 4096}"
    and pub: "kw_public_key kwe = Some pk" and priv: "kw_private_key kwd = Some sk"
    and inp: "fs plain_file = Some data" and len: "length data < 4096"
    and n1: "plain_file \<noteq> enc_file @ ''.temp''" and n2: "dec_file \<noteq> enc_file @ ''.temp''"
  shows "\<exists>fs1 fs2.
           RSA_encrypt_file R A tape fs plain_file enc_file key 4096 kwe = Inr (True, fs1)
         \<and> RSA_decrypt_file R A fs1 enc_file dec_file key' 4096 kwd = Inr (True, fs2)
         \<and> fs2 dec_file = Some data"
proof -
  obtain aes_key aes_iv tape1 where gk: "AES_generate_key 256 tape = ((aes_key, aes_iv), tape1)"
    by (metis prod.exhaust)
  have l: "length aes_key = 32" "length aes_iv = 16"
    using AES_generate_key_lengths [OF gk] by simp_all
  have fit: "length (aes_key @ aes_iv) + 66 \<le> key_size div 8" using l ks by auto
  from kp fit obtain wrapped
    where w: "rsa_oaep_encrypt R pk tape1 (aes_key @ aes_iv) = Inr wrapped"
      and lw: "length wrapped = key_size div 8"
      and uw: "rsa_oaep_decrypt R sk wrapped = Inr (aes_key @ aes_iv)"
    unfolding rsa_keypair_ok_def by blast
  have "length wrapped < 2 ^ 32" using lw ks by auto
  from to_bytes4_be_ok [OF this] obtain prefix
    where p: "to_bytes4_be (length wrapped) = Inr prefix" by blast
  have pl: "length prefix = 4" "from_bytes_be prefix = length wrapped"
    using to_bytes4_be_Inr [OF p] by simp_all
  define stream where "stream = concat (map (\<lambda>chunk. cbc_encrypt A aes_key aes_iv (pkcs7_pad chunk))
                                     (chunks 4096 data))"
  define fs1 where "fs1 = (fs(enc_file \<mapsto> prefix @ wrapped @ stream))(enc_file @ ''.temp'' := None)"
  have enc: "RSA_encrypt_file R A tape fs plain_file enc_file key 4096 kwe = Inr (True, fs1)"
    using RSA_encrypt_file_ok [where fs = fs and input_file = plain_file and A = A and key = key
        and chunk_size = 4096, OF pub gk w p inp n1]
    by (simp add: stream_def concat_chunks fs1_def)
  have f1: "fs1 enc_file = Some (prefix @ wrapped @ stream)" by (simp add: fs1_def)
  define fsd where "fsd = fs1(enc_file @ ''.temp'' \<mapsto> stream)"
  have ad: "AES_decrypt_file A 256 ''CBC'' fsd (enc_file @ ''.temp'') dec_file aes_key 4096
              ((no_kwargs :: ('pk, 'sk) kwargs)\<lparr>kw_iv := Some aes_iv\<rparr>)
            = (True, fsd(dec_file \<mapsto> data))"
  proof (cases "data = []")
    case True
    then have "stream = []" by (simp add: stream_def)
    then show ?thesis
      using True by (simp add: AES_decrypt_file_def CryptoBase_decrypt_file_def fsd_def)
  next
    case False
    have "chunks 4096 data = [data]" using False len by (simp add: chunks_short)
    then have s: "stream = cbc_encrypt A aes_key aes_iv (pkcs7_pad data)" by (simp add: stream_def)
    show ?thesis
      by (rule AES_decrypt_file_CBC_single_chunk [where iv = aes_iv])
         (use ok l len n2 in \<open>simp_all add: fsd_def s\<close>)
  qed
  have dec: "RSA_decrypt_file R A fs1 enc_file dec_file key' 4096 kwd =
               Inr (True, remove_if_exists (enc_file @ ''.temp'') (fsd(dec_file \<mapsto> data)))"
    using RSA_decrypt_file_container [where fs = fs1 and input_file = enc_file and A = A
        and output_file = dec_file and key = key' and chunk_size = 4096, OF priv f1 pl uw l]
    by (simp add: concat_chunks fsd_def [symmetric] ad)
  have out: "remove_if_exists (enc_file @ ''.temp'') (fsd(dec_file \<mapsto> data)) dec_file = Some data"
    using n2 by (simp add: remove_if_exists_def)
  show ?thesis
    using enc dec out by auto
qed

text \<open>
  Claim C2.  The round trip through \<open>RSACipher.encrypt_file\<close> and \<open>decrypt_file\<close> with the
  default chunk size 4096 does not restore a file of 4096 bytes or more whose first 4096
  bytes do not happen to end in a PKCS7 padding run.  The encrypting side turns the first
  4096-byte chunk into 4112 bytes; the decrypting side reads 4096 of those as its first
  chunk, decrypts them to the 4096 plaintext bytes and fails to unpad them.  The AES
  \<open>decrypt_file\<close> then returns \<open>False\<close> with an empty output file, and \<open>RSACipher.decrypt_file\<close>,
  which does not look at that result, returns \<open>True\<close>.
\<close>

theorem C2_rsa_file_roundtrip_loses_file:
  fixes R :: "('pk, 'sk) rsa_prim"
  assumes ok: "block_prim_ok A"
    and kp: "rsa_keypair_ok R key_size sk pk" and ks: "key_size \<in> {1024, 2048, 4096}"
    and pub: "kw_public_key kwe = Some pk" and priv: "kw_private_key kwd = Some sk"
    and inp: "fs plain_file = Some data" and len: "4096 \<le> length data"
    and bad: "pkcs7_unpad (take 4096 data) = Inl e"
    and n1: "plain_file \<noteq> enc_file @ ''.temp''" and n2: "dec_file \<noteq> enc_file @ ''.temp''"
  shows "\<exists>fs1 fs2.
           RSA_encrypt_file R A tape fs plain_file enc_file key 4096 kwe = Inr (True, fs1)
         \<and> RSA_decrypt_file R A fs1 enc_file dec_file key' 4096 kwd = Inr (True, fs2)
         \<and> fs2 dec_file = Some [] \<and> fs2 dec_file \<noteq> Some data"
proof -
  obtain aes_key aes_iv tape1 where gk: "AES_generate_key 256 tape = ((aes_key, aes_iv), tape1)"
    by (metis prod.exhaust)
  have l: "length aes_key = 32" "length aes_iv = 16"
    using AES_generate_key_lengths [OF gk] by simp_all
  have fit: "length (aes_key @ aes_iv) + 66 \<le> key_size div 8" using l ks by auto
  from kp fit obtain wrapped
    where w: "rsa_oaep_encrypt R pk tape1 (aes_key @ aes_iv) = Inr wrapped"
      and lw: "length wrapped = key_size div 8"
      and uw: "rsa_oaep_decrypt R sk wrapped = Inr (aes_key @ aes_iv)"
    unfolding rsa_keypair_ok_def by blast
  have "length wrapped < 2 ^ 32" using lw ks by auto
  from to_bytes4_be_ok [OF this] obtain prefix
    where p: "to_bytes4_be (length wrapped) = Inr prefix" by blast
  have pl: "length prefix = 4" "from_bytes_be prefix = length wrapped"
    using to_bytes4_be_Inr [OF p] by simp_all
  define c1 where "c1 = take 4096 data"
  define rest where "rest = concat (map (\<lambda>chunk. cbc_encrypt A aes_key aes_iv (pkcs7_pad chunk))
                                     (chunks 4096 (drop 4096 data)))"
  define stream where "stream = cbc_encrypt A aes_key aes_iv (pkcs7_pad c1) @ rest"
  have dne: "data \<noteq> []" using len by auto
  have lc1: "length c1 = 4096" using len by (simp add: c1_def)
  have st: "concat (map (\<lambda>chunk. cbc_encrypt A aes_key aes_iv (pkcs7_pad chunk)) (chunks 4096 data))
              = stream"
    by (simp add: chunks_step [of 4096 data] dne stream_def rest_def c1_def)
  define fs1 where "fs1 = (fs(enc_file \<mapsto> prefix @ wrapped @ stream))(enc_file @ ''.temp'' := None)"
  have enc: "RSA_encrypt_file R A tape fs plain_file enc_file key 4096 kwe = Inr (True, fs1)"
    using RSA_encrypt_file_ok [where fs = fs and input_file = plain_file and A = A and key = key
        and chunk_size = 4096, OF pub gk w p inp n1]
    by (simp add: st concat_chunks fs1_def)
  have f1: "fs1 enc_file = Some (prefix @ wrapped @ stream)" by (simp add: fs1_def)
  define fsd where "fsd = fs1(enc_file @ ''.temp'' \<mapsto> stream)"
  have ad: "AES_decrypt_file A 256 ''CBC'' fsd (enc_file @ ''.temp'') dec_file aes_key 4096
              ((no_kwargs :: ('pk, 'sk) kwargs)\<lparr>kw_iv := Some aes_iv\<rparr>)
            = (False, fsd(dec_file \<mapsto> []))"
    by (rule AES_decrypt_file_CBC_first_chunk_fails [where iv = aes_iv and chunk = c1 and rest = rest and e = e])
       (use ok l lc1 bad n2 in \<open>simp_all add: fsd_def stream_def c1_def\<close>)
  have dec: "RSA_decrypt_file R A fs1 enc_file dec_file key' 4096 kwd =
               Inr (True, remove_if_exists (enc_file @ ''.temp'') (fsd(dec_file \<mapsto> [])))"
    using RSA_decrypt_file_container [where fs = fs1 and input_file = enc_file and A = A
        and output_file = dec_file and key = key' and chunk_size = 4096, OF priv f1 pl uw l]
    by (simp add: concat_chunks fsd_def [symmetric] ad)
  have out: "remove_if_exists (enc_file @ ''.temp'') (fsd(dec_file \<mapsto> [])) dec_file = Some []"
    using n2 by (simp add: remove_if_exists_def)
  show ?thesis
    using enc dec out dne by auto
qed

theorem C2_rsa_file_roundtrip_loses_file_witness:
  "\<exists>fs1 fs2.
     RSA_encrypt_file toy_rsa toy_block (\<lambda>_. 0) [''plain'' \<mapsto> replicate 4096 0] ''plain'' ''cipher''
        [] 4096 ((no_kwargs :: (nat, nat) kwargs)\<lparr>kw_public_key := Some 128\<rparr>) = Inr (True, fs1)
   \<and> RSA_decrypt_file toy_rsa toy_block fs1 ''cipher'' ''restored''
        [] 4096 ((no_kwargs :: (nat, nat) kwargs)\<lparr>kw_private_key := Some 128\<rparr>) = Inr (True, fs2)
   \<and> fs2 ''restored'' = Some [] \<and> fs2 ''restored'' \<noteq> Some (replicate 4096 0)"
proof -
  have kp: "rsa_keypair_ok toy_rsa 1024 128 128"
    using toy_rsa_keypair_ok [of 1024] by simp
  have bad: "pkcs7_unpad (take 4096 (replicate 4096 0)) = Inl (ValueError ''Invalid padding bytes.'')"
    by (simp add: pkcs7_unpad_def)
  show ?thesis
    using C2_rsa_file_roundtrip_loses_file [where A = toy_block and R = toy_rsa and key_size = 1024
        and sk = 128 and pk = 128
        and kwe = "(no_kwargs :: (nat, nat) kwargs)\<lparr>kw_public_key := Some 128\<rparr>"
        and kwd = "(no_kwargs :: (nat, nat) kwargs)\<lparr>kw_private_key := Some 128\<rparr>"
        and fs = "[''plain'' \<mapsto> replicate 4096 0]" and plain_file = "''plain''"
        and data = "replicate 4096 0" and enc_file = "''cipher''" and dec_file = "''restored''"
        and tape = "\<lambda>_. 0" and key = "[]" and key' = "[]", OF toy_block_ok kp _ _ _ _ _ bad]
    by simp
qed

section \<open>The data round trip of the registered ciphers\<close>

lemma length_stream_xor [simp]: "length (stream_xor P key nonce data) = length data"
  by (simp add: stream_xor_def)











section \<open>Tampering with a ChaCha20-Poly1305 message\<close>








text \<open>
  Claim C6.  Saving key material and loading it again by the same name and password
  does not return the material when sanitising changes the name: \<open>save_key\<close> writes the
  file of the sanitised name, \<open>load_key\<close> looks for the file of the name as given, finds
  none (in a store that has no such file) and returns \<open>None\<close>, whatever the key material
  and the password are.
\<close>

theorem C6_save_then_load_same_name_returns_None:
  assumes "sanitize_key_name key_name \<noteq> key_name"
    and "fs (key_file_of km key_name) = None"
    and "save_key K km tape time now fs key_data key_name password = Inr (key_file, fs')"
  shows "load_key K km fs' key_name password = None
         \<and> fs' (key_file_of km (sanitize_key_name key_name)) \<noteq> None"
proof -
  from save_key_file [OF assms(3)] obtain content
    where kf: "key_file = key_file_of km (sanitize_key_name key_name)"
      and fs': "fs' = fs(key_file \<mapsto> content)" by auto
  have "key_file \<noteq> key_file_of km key_name"
    unfolding kf using assms(1) by (rule key_file_of_sanitize_neq)
  then have "fs' (key_file_of km key_name) = None"
    using assms(2) by (simp add: fs')
  then have "load_key K km fs' key_name password = None"
    by (rule load_key_missing)
  then show ?thesis by (simp add: fs' kf [symmetric])
qed

theorem C6_save_then_load_same_name_returns_None_witness:
  "\<exists>fs'. save_key toy_key_prim \<lparr>storage_dir = ''keys''\<rparr> (\<lambda>_. 0) 0 ''2024-01-01T00:00:00''
            Map.empty [(''key'', Bytes [1, 2, 3]), (''iv'', Bytes [4, 5])] ''backup/aes key'' (Some ''pw'')
          = Inr (''keys/backup_aes_key.key'', fs')
        \<and> load_key toy_key_prim \<lparr>storage_dir = ''keys''\<rparr> fs' ''backup/aes key'' (Some ''pw'') = None"
proof -
  have s: "sanitize_key_name ''backup/aes key'' = ''backup_aes_key''"
    by (simp add: sanitize_key_name_def replace_char_def)
  have kf: "key_file_of \<lparr>storage_dir = ''keys''\<rparr> ''backup_aes_key'' = ''keys/backup_aes_key.key''"
    by (simp add: key_file_of_def os_path_join_def)
  have kr: "key_file_of \<lparr>storage_dir = ''keys''\<rparr> ''backup/aes key'' = ''keys/backup/aes key.key''"
    by (simp add: key_file_of_def os_path_join_def)
  obtain fs' where sv: "save_key toy_key_prim \<lparr>storage_dir = ''keys''\<rparr> (\<lambda>_. 0) 0 ''2024-01-01T00:00:00''
            Map.empty [(''key'', Bytes [1, 2, 3]), (''iv'', Bytes [4, 5])] ''backup/aes key'' (Some ''pw'')
          = Inr (''keys/backup_aes_key.key'', fs')"
    by (simp add: save_key_def s kf save_data_of_def dict_get_default_def dict_get_def truthy_def
          Let_def urandom_const)
  show ?thesis
    using C6_save_then_load_same_name_returns_None [OF _ _ sv] sv by (simp add: s kr)
qed

end
